theory Spec2Isabelle
  imports Complex_Main
begin

chapter \<open>The model\<close>

section \<open>Python strings\<close>

text \<open>
  A Python \<^verbatim>\<open>str\<close> is a sequence of Unicode code points, and \<^verbatim>\<open>len\<close> counts code
  points; it is modelled as a list of naturals.  \<open>cps\<close> turns an ASCII literal into
  that form.
\<close>

type_synonym pystr = "nat list"

definition cps :: "string \<Rightarrow> pystr" where
  "cps s = map of_char s"

text \<open>
  \<^verbatim>\<open>str.lower()\<close>.  The letters A to Z move to a to z.  Two code points outside
  ASCII have an ASCII letter in their lower-case form: U+0130 becomes i followed by
  U+0307, and U+212A (the Kelvin sign) becomes k.  Every other cased code point outside
  ASCII has a lower-case form that is outside ASCII as well and is no emoji, so it
  can neither complete nor break a match against the ASCII and emoji keywords below;
  such code points are left as they are.
\<close>

definition lower_cp :: "nat \<Rightarrow> pystr" where
  "lower_cp c =
     (if 65 \<le> c \<and> c \<le> 90 then [c + 32]
      else if c = 304 then [105, 775]
      else if c = 8490 then [107]
      else [c])"

definition py_lower :: "pystr \<Rightarrow> pystr" where
  "py_lower t = concat (map lower_cp t)"

text \<open>\<^verbatim>\<open>word in text\<close> on strings: \<open>word\<close> occurs in \<open>text\<close> as a contiguous run.\<close>

fun startswith :: "pystr \<Rightarrow> pystr \<Rightarrow> bool" where
  "startswith [] t = True"
| "startswith (k # ks) [] = False"
| "startswith (k # ks) (c # cs) = (k = c \<and> startswith ks cs)"

fun py_in :: "pystr \<Rightarrow> pystr \<Rightarrow> bool" where
  "py_in w [] = (w = [])"
| "py_in w (c # cs) = (startswith w (c # cs) \<or> py_in w cs)"

text \<open>\<^verbatim>\<open>any(word in text for word in words)\<close>.\<close>

definition any_in :: "pystr list \<Rightarrow> pystr \<Rightarrow> bool" where
  "any_in ws t = list_ex (\<lambda>w. py_in w t) ws"

section \<open>Message classification (preprocess.py)\<close>

text \<open>The keyword lists of \<^verbatim>\<open>_classify_message\<close>, in the order of the source.\<close>

definition business_words :: "pystr list" where
  "business_words = map cps [''business'', ''startup'', ''company'', ''meeting'',
     ''client'', ''revenue'', ''pitch'', ''investor'']"

definition investment_words :: "pystr list" where
  "investment_words = map cps [''invest'', ''stock'', ''crypto'', ''trading'',
     ''portfolio'', ''bitcoin'', ''eth'']"

definition interest_words :: "pystr list" where
  "interest_words = map cps [''love'', ''enjoy'', ''favorite'', ''like'',
     ''interested'', ''passion'', ''hobby'']"

definition habit_words :: "pystr list" where
  "habit_words = map cps [''every day'', ''always'', ''usually'', ''routine'',
     ''habit'', ''morning'', ''evening'']"

definition personal_trait_words :: "pystr list" where
  "personal_trait_words = map cps [''i am'', ''i'' @ [CHR 0x27] @ ''m'', ''i feel'',
     ''i think'', ''i believe'', ''my opinion'']"

definition preference_words :: "pystr list" where
  "preference_words = map cps [''prefer'', ''rather'', ''better than'', ''dont like'',
     ''don'' @ [CHR 0x27] @ ''t like'', ''hate'']"

definition relationship_words :: "pystr list" where
  "relationship_words = map cps [''friend'', ''family'', ''mom'', ''dad'', ''brother'',
     ''sister'', ''relationship'']"

text \<open>The two emoji of the humor list are U+1F602 and U+1F923.\<close>

definition humor_words :: "pystr list" where
  "humor_words = [cps ''haha'', cps ''lol'', cps ''lmao'', [128514], [129315],
     cps ''funny'', cps ''joke'']"

definition classify_message :: "pystr \<Rightarrow> pystr" where
  "classify_message text =
     (let text_lower = py_lower text in
      if any_in business_words text_lower then cps ''business''
      else if any_in investment_words text_lower then cps ''investment''
      else if any_in interest_words text_lower then cps ''interest''
      else if any_in habit_words text_lower then cps ''habit''
      else if any_in personal_trait_words text_lower then cps ''personal_trait''
      else if any_in preference_words text_lower then cps ''preference''
      else if any_in relationship_words text_lower then cps ''relationship''
      else if any_in humor_words text_lower then cps ''humor''
      else cps ''general'')"

text \<open>
  The classifier as an ordered dispatch table: the pairs of category and keyword list,
  tried from the top, the first list with a keyword in the text giving the category and
  \<^verbatim>\<open>general\<close> standing when none has.  \<open>classify_table\<close> is compared below with
  the chain of conditionals of the source.
\<close>

definition category_table :: "(pystr \<times> pystr list) list" where
  "category_table =
     [(cps ''business'', business_words),
      (cps ''investment'', investment_words),
      (cps ''interest'', interest_words),
      (cps ''habit'', habit_words),
      (cps ''personal_trait'', personal_trait_words),
      (cps ''preference'', preference_words),
      (cps ''relationship'', relationship_words),
      (cps ''humor'', humor_words)]"

fun first_match :: "(pystr \<times> pystr list) list \<Rightarrow> pystr \<Rightarrow> pystr" where
  "first_match [] t = cps ''general''"
| "first_match ((c, ws) # rest) t = (if any_in ws t then c else first_match rest t)"

definition classify_table :: "pystr \<Rightarrow> pystr" where
  "classify_table text = first_match category_table (py_lower text)"

definition categories :: "pystr list" where
  "categories = map cps [''business'', ''investment'', ''interest'', ''habit'',
     ''personal_trait'', ''preference'', ''relationship'', ''humor'', ''general'']"

definition no_keyword :: "pystr \<Rightarrow> bool" where
  "no_keyword text = list_all (\<lambda>(c, ws). \<not> any_in ws (py_lower text)) category_table"

section \<open>Python objects and errors\<close>

text \<open>
  An exception that leaves a function is a value \<open>Inl e\<close> of its result.  The
  constructors are the exception classes that the code below can raise or let through;
  \<open>BackendError\<close> stands for whatever an external service (embedding model, vector
  index, language model) raises.
\<close>

datatype error =
    ValueError string
  | AttributeError
  | KeyError
  | TypeError
  | IndexError
  | OverflowError
  | UnicodeEncodeError
  | ProgrammingError
  | BackendError string

text \<open>
  What \<^verbatim>\<open>json.load\<close> returns: \<^verbatim>\<open>None\<close>, a bool, an int, a float, a str, a list
  or a dict with string keys.  A dict is the list of its items (keys distinct, as they
  are in a Python dict).  A float is the rational it denotes; NaN and the infinities,
  which \<^verbatim>\<open>json\<close> also reads, are left out.
\<close>

datatype pyval =
    PNone
  | PBool bool
  | PInt int
  | PFloat rat
  | PStr pystr
  | PList "pyval list"
  | PDict "(pystr \<times> pyval) list"

text \<open>Truth value testing, as \<^verbatim>\<open>not x\<close> and \<^verbatim>\<open>x or y\<close> apply it.\<close>

fun truthy :: "pyval \<Rightarrow> bool" where
  "truthy PNone = False"
| "truthy (PBool b) = b"
| "truthy (PInt n) = (n \<noteq> 0)"
| "truthy (PFloat x) = (x \<noteq> 0)"
| "truthy (PStr s) = (s \<noteq> [])"
| "truthy (PList xs) = (xs \<noteq> [])"
| "truthy (PDict kvs) = (kvs \<noteq> [])"

definition py_or :: "pyval \<Rightarrow> pyval \<Rightarrow> pyval" where
  "py_or a b = (if truthy a then a else b)"

text \<open>\<^verbatim>\<open>d.get(k)\<close>: the value under \<open>k\<close>, \<^verbatim>\<open>None\<close> when the key is absent.\<close>

definition dict_get :: "(pystr \<times> pyval) list \<Rightarrow> pystr \<Rightarrow> pyval" where
  "dict_get kvs k = (case map_of kvs k of Some v \<Rightarrow> v | None \<Rightarrow> PNone)"

text \<open>
  \<^verbatim>\<open>str.strip()\<close> removes leading and trailing whitespace; \<open>is_space\<close> lists the code
  points for which \<^verbatim>\<open>str.isspace\<close> holds.
\<close>

definition is_space :: "nat \<Rightarrow> bool" where
  "is_space c \<longleftrightarrow>
     (9 \<le> c \<and> c \<le> 13) \<or> (28 \<le> c \<and> c \<le> 32) \<or> c = 133 \<or> c = 160 \<or> c = 5760 \<or>
     (8192 \<le> c \<and> c \<le> 8202) \<or> c = 8232 \<or> c = 8233 \<or> c = 8239 \<or> c = 8287 \<or>
     c = 12288"

definition py_strip :: "pystr \<Rightarrow> pystr" where
  "py_strip s = rev (dropWhile is_space (rev (dropWhile is_space s)))"

text \<open>
  Formatting a value inside an f-string.  A str stands for itself, an int is written in
  decimal, \<^verbatim>\<open>None\<close> and the bools by name.  For a float, a list or a dict the
  f-string shows Python's \<^verbatim>\<open>repr\<close>, which is passed in as \<open>repr\<close>.
\<close>

fun digits :: "nat \<Rightarrow> pystr" where
  "digits n = (if n < 10 then [48 + n] else digits (n div 10) @ [48 + n mod 10])"

definition str_int :: "int \<Rightarrow> pystr" where
  "str_int n = (if n < 0 then 45 # digits (nat (- n)) else digits (nat n))"

definition format_value :: "(pyval \<Rightarrow> pystr) \<Rightarrow> pyval \<Rightarrow> pystr" where
  "format_value repr v =
     (case v of
        PStr s \<Rightarrow> s
      | PInt n \<Rightarrow> str_int n
      | PBool b \<Rightarrow> (if b then cps ''True'' else cps ''False'')
      | PNone \<Rightarrow> cps ''None''
      | _ \<Rightarrow> repr v)"

section \<open>Fact extraction (preprocess.py)\<close>

text \<open>The dict that \<^verbatim>\<open>extract_facts\<close> builds for one message.\<close>

record fact =
  type :: pystr
  content :: pystr
  source_reference :: pystr
  timestamp :: pyval
  raw_text :: pystr

text \<open>
  The three field reads at the top of the loop body of \<^verbatim>\<open>extract_facts\<close>, each a
  chain of \<^verbatim>\<open>msg.get(...) or ...\<close> over the aliases of the field.
\<close>

definition msg_text :: "(pystr \<times> pyval) list \<Rightarrow> pyval" where
  "msg_text msg =
     py_or (py_or (py_or (dict_get msg (cps ''text'')) (dict_get msg (cps ''message'')))
       (dict_get msg (cps ''body''))) (PStr [])"

definition msg_timestamp :: "(pystr \<times> pyval) list \<Rightarrow> pyval" where
  "msg_timestamp msg =
     py_or (py_or (py_or (py_or (dict_get msg (cps ''timestamp''))
       (dict_get msg (cps ''datetime''))) (dict_get msg (cps ''date'')))
       (dict_get msg (cps ''time''))) (PStr [])"

definition msg_id :: "nat \<Rightarrow> (pystr \<times> pyval) list \<Rightarrow> pyval" where
  "msg_id i msg = py_or (dict_get msg (cps ''id'')) (PInt (int i))"

text \<open>
  One iteration of the loop for the message at index \<open>i\<close>: \<open>Inr None\<close> is
  \<^verbatim>\<open>continue\<close>, \<open>Inr (Some f)\<close> appends \<open>f\<close>.  \<^verbatim>\<open>msg.get\<close> raises
  AttributeError when the message is no dict, and so does \<^verbatim>\<open>text.strip()\<close> when the
  text is a true value that is no str.
\<close>

definition extract_fact :: "(pyval \<Rightarrow> pystr) \<Rightarrow> nat \<Rightarrow> pyval \<Rightarrow> error + fact option" where
  "extract_fact repr i m =
     (case m of
        PDict msg \<Rightarrow>
          (let text = msg_text msg;
               timestamp = msg_timestamp msg;
               msg_id = msg_id i msg
           in if \<not> truthy text then Inr None
              else (case text of
                      PStr s \<Rightarrow>
                        if length (py_strip s) < 5 then Inr None
                        else Inr (Some \<lparr>type = classify_message s,
                                        content = py_strip s,
                                        source_reference = cps ''msg_'' @ format_value repr msg_id,
                                        timestamp = timestamp,
                                        raw_text = s\<rparr>)
                    | _ \<Rightarrow> Inl AttributeError))
      | _ \<Rightarrow> Inl AttributeError)"

fun extract_loop :: "(pyval \<Rightarrow> pystr) \<Rightarrow> nat \<Rightarrow> pyval list \<Rightarrow> fact list \<Rightarrow> error + fact list" where
  "extract_loop repr i [] facts = Inr facts"
| "extract_loop repr i (m # ms) facts =
     (case extract_fact repr i m of
        Inl e \<Rightarrow> Inl e
      | Inr None \<Rightarrow> extract_loop repr (Suc i) ms facts
      | Inr (Some f) \<Rightarrow> extract_loop repr (Suc i) ms (facts @ [f]))"

definition extract_facts :: "(pyval \<Rightarrow> pystr) \<Rightarrow> pyval list \<Rightarrow> error + fact list" where
  "extract_facts repr messages = extract_loop repr 0 messages []"

text \<open>
  A \<open>repr\<close> for runs in which every message id is absent, a str or an int, where it
  is never called.
\<close>

definition blank_repr :: "pyval \<Rightarrow> pystr" where
  "blank_repr v = []"

text \<open>
  \<^verbatim>\<open>load_json\<close>, applied to the value that \<^verbatim>\<open>json.load\<close> read from the export; the
  result is the new \<^verbatim>\<open>self.messages\<close>.  The closing \<^verbatim>\<open>print\<close> takes
  \<^verbatim>\<open>len(self.messages)\<close>, which raises TypeError for a value without a length.
\<close>

fun has_len :: "pyval \<Rightarrow> bool" where
  "has_len (PStr s) = True"
| "has_len (PList xs) = True"
| "has_len (PDict kvs) = True"
| "has_len v = False"

definition unknown_structure :: error where
  "unknown_structure = ValueError
     (''Unknown JSON structure. Expected list of messages or dict with '' @ [CHR 0x27] @
      ''messages'' @ [CHR 0x27] @ '' key'')"

definition load_json :: "pyval \<Rightarrow> error + pyval" where
  "load_json data =
     (case data of
        PList ms \<Rightarrow> Inr (PList ms)
      | PDict kvs \<Rightarrow>
          (case map_of kvs (cps ''messages'') of
             Some ms \<Rightarrow> if has_len ms then Inr ms else Inl TypeError
           | None \<Rightarrow> Inl unknown_structure)
      | _ \<Rightarrow> Inl unknown_structure)"

text \<open>
  The text of a message that survives the length test: the message is a dict, its text
  field is a str, and the text has at least five code points after trimming.
\<close>

fun kept_text :: "pyval \<Rightarrow> pystr option" where
  "kept_text (PDict msg) =
     (case msg_text msg of
        PStr s \<Rightarrow> if 5 \<le> length (py_strip s) then Some s else None
      | _ \<Rightarrow> None)"
| "kept_text m = None"

text \<open>The two shapes of export that \<^verbatim>\<open>load_json\<close> accepts.\<close>

fun is_list :: "pyval \<Rightarrow> bool" where
  "is_list (PList xs) = True"
| "is_list v = False"

fun has_messages_key :: "pyval \<Rightarrow> bool" where
  "has_messages_key (PDict kvs) = (cps ''messages'' \<in> fst ` set kvs)"
| "has_messages_key v = False"

text \<open>\<open>lacks msg keys\<close>: the message has none of the keys.\<close>

definition lacks :: "(pystr \<times> pyval) list \<Rightarrow> pystr list \<Rightarrow> bool" where
  "lacks msg keys = list_all (\<lambda>k. map_of msg k = None) keys"

definition text_keys :: "pystr list" where
  "text_keys = map cps [''text'', ''message'', ''body'']"

definition timestamp_keys :: "pystr list" where
  "timestamp_keys = map cps [''timestamp'', ''datetime'', ''date'', ''time'']"

text \<open>A message object whose text, when it has one, is a str.\<close>

fun well_formed :: "pyval \<Rightarrow> bool" where
  "well_formed (PDict msg) = (case msg_text msg of PStr s \<Rightarrow> True | v \<Rightarrow> \<not> truthy v)"
| "well_formed m = False"

text \<open>
  Three messages of the target author, the third of two characters, and the facts the
  first two give.
\<close>

definition scenario_messages :: "pyval list" where
  "scenario_messages =
     [PDict [(cps ''from'', PStr (cps ''Arunav'')),
             (cps ''text'', PStr (cps ''I love trading crypto''))],
      PDict [(cps ''from'', PStr (cps ''Arunav'')),
             (cps ''text'', PStr (cps ''haha that'' @ [39] @ cps ''s funny''))],
      PDict [(cps ''from'', PStr (cps ''Arunav'')), (cps ''text'', PStr (cps ''ok''))]]"

definition scenario_facts :: "fact list" where
  "scenario_facts =
     [\<lparr>type = cps ''investment'', content = cps ''I love trading crypto'',
       source_reference = cps ''msg_0'', timestamp = PStr [],
       raw_text = cps ''I love trading crypto''\<rparr>,
      \<lparr>type = cps ''humor'', content = cps ''haha that'' @ [39] @ cps ''s funny'',
       source_reference = cps ''msg_1'', timestamp = PStr [],
       raw_text = cps ''haha that'' @ [39] @ cps ''s funny''\<rparr>]"

section \<open>The fact store (preprocess.py, memory_store.py)\<close>

text \<open>
  The \<^verbatim>\<open>facts\<close> table of the SQLite database.  A row is a fact with the id the table
  gave it; \<^verbatim>\<open>created_at\<close>, which nothing reads, is left out.  \<open>last_id\<close> is the
  largest id given so far (\<^verbatim>\<open>AUTOINCREMENT\<close>); a database without the table and one
  with the empty table are the same state, as \<^verbatim>\<open>CREATE TABLE IF NOT EXISTS\<close> makes
  them.  The fields of a row are the values that a \<^verbatim>\<open>SELECT\<close> reads back.
\<close>

record row = fact +
  row_id :: nat

record store =
  rows :: "row list"
  last_id :: nat

definition empty_store :: store where
  "empty_store = \<lparr>rows = [], last_id = 0\<rparr>"

text \<open>
  Binding one parameter of the \<^verbatim>\<open>INSERT\<close>.  The \<^verbatim>\<open>sqlite3\<close> module binds
  \<^verbatim>\<open>None\<close>, bools, ints that fit 64 bits, floats and strs that encode as UTF-8 (no
  lone surrogate); it raises for any other value.
\<close>

definition utf8_ok :: "pystr \<Rightarrow> bool" where
  "utf8_ok s = list_all (\<lambda>c. \<not> (55296 \<le> c \<and> c \<le> 57343)) s"

fun bind_param :: "pyval \<Rightarrow> error option" where
  "bind_param PNone = None"
| "bind_param (PBool b) = None"
| "bind_param (PInt n) =
     (if - (2 ^ 63) \<le> n \<and> n < 2 ^ 63 then None else Some OverflowError)"
| "bind_param (PFloat x) = None"
| "bind_param (PStr s) = (if utf8_ok s then None else Some UnicodeEncodeError)"
| "bind_param (PList xs) = Some ProgrammingError"
| "bind_param (PDict kvs) = Some ProgrammingError"

fun bind_params :: "pyval list \<Rightarrow> error option" where
  "bind_params [] = None"
| "bind_params (v # vs) = (case bind_param v of Some e \<Rightarrow> Some e | None \<Rightarrow> bind_params vs)"

text \<open>
  What the column \<^verbatim>\<open>timestamp TEXT\<close> holds for a bound value, as it is read back.
  The column has TEXT affinity: a str is stored as it is and \<^verbatim>\<open>None\<close> as NULL, while
  a number is stored as its text, an int in decimal, \<^verbatim>\<open>True\<close> and \<^verbatim>\<open>False\<close> (bound
  as 1 and 0) as \<^verbatim>\<open>'1'\<close> and \<^verbatim>\<open>'0'\<close>, and a float in SQLite's rendering of a
  REAL, which is passed in as \<open>real_text\<close>.  The other four columns receive strs only.
\<close>

fun sql_text :: "(rat \<Rightarrow> pystr) \<Rightarrow> pyval \<Rightarrow> pyval" where
  "sql_text real_text (PBool b) = PStr (if b then cps ''1'' else cps ''0'')"
| "sql_text real_text (PInt n) = PStr (str_int n)"
| "sql_text real_text (PFloat x) = PStr (real_text x)"
| "sql_text real_text v = v"

text \<open>The fact as the table holds it.\<close>

definition stored_form :: "(rat \<Rightarrow> pystr) \<Rightarrow> fact \<Rightarrow> fact" where
  "stored_form real_text f = f\<lparr>timestamp := sql_text real_text (timestamp f)\<rparr>"

text \<open>One \<^verbatim>\<open>cursor.execute('INSERT INTO facts ...', (...))\<close>.\<close>

definition insert_fact :: "(rat \<Rightarrow> pystr) \<Rightarrow> store \<Rightarrow> fact \<Rightarrow> error + store" where
  "insert_fact real_text st f =
     (case bind_params [PStr (type f), PStr (content f), PStr (source_reference f),
                        timestamp f, PStr (raw_text f)] of
        Some e \<Rightarrow> Inl e
      | None \<Rightarrow>
          Inr (st\<lparr>rows := rows st @
                    [fact.extend (stored_form real_text f) \<lparr>row_id = Suc (last_id st)\<rparr>],
                  last_id := Suc (last_id st)\<rparr>))"

text \<open>The loop \<^verbatim>\<open>for fact in facts\<close> of \<^verbatim>\<open>save_to_db\<close>.\<close>

fun insert_facts :: "(rat \<Rightarrow> pystr) \<Rightarrow> store \<Rightarrow> fact list \<Rightarrow> error + store" where
  "insert_facts real_text st [] = Inr st"
| "insert_facts real_text st (f # fs) =
     (case insert_fact real_text st f of
        Inl e \<Rightarrow> Inl e
      | Inr st' \<Rightarrow> insert_facts real_text st' fs)"

text \<open>
  \<^verbatim>\<open>save_to_db\<close>: the database after the call, and the exception if one left it.
  \<^verbatim>\<open>conn.commit()\<close> stands after the loop, so the inserts of a run that raises are
  never committed and the table keeps the rows it had.
\<close>

definition save_to_db :: "(rat \<Rightarrow> pystr) \<Rightarrow> store \<Rightarrow> fact list \<Rightarrow> store \<times> error option" where
  "save_to_db real_text st facts =
     (case insert_facts real_text st facts of
        Inl e \<Rightarrow> (st, Some e)
      | Inr st' \<Rightarrow> (st', None))"

text \<open>
  A rendering of floats for runs in which no timestamp is a float, where it is never
  called.
\<close>

definition blank_real_text :: "rat \<Rightarrow> pystr" where
  "blank_real_text x = []"

text \<open>\<open>storable f\<close>: the five values of the fact can all be bound.\<close>

definition storable :: "fact \<Rightarrow> bool" where
  "storable f \<longleftrightarrow>
     utf8_ok (type f) \<and> utf8_ok (content f) \<and> utf8_ok (source_reference f) \<and>
     bind_param (timestamp f) = None \<and> utf8_ok (raw_text f)"

text \<open>The facts held by the table, in row order, without their ids.\<close>

definition stored_facts :: "store \<Rightarrow> fact list" where
  "stored_facts st = map fact.truncate (rows st)"

section \<open>Slices, subscripts and tables\<close>

text \<open>
  The slice \<^verbatim>\<open>xs[i:]\<close>: a negative \<open>i\<close> counts from the end and is clamped at the
  start of the list.  \<^verbatim>\<open>xs[-n:]\<close> is \<open>py_slice_from xs (- n)\<close>; for \<open>n = 0\<close> that
  is \<^verbatim>\<open>xs[0:]\<close>, the whole list.
\<close>

definition py_slice_from :: "'a list \<Rightarrow> int \<Rightarrow> 'a list" where
  "py_slice_from xs i =
     (if i < 0 then drop (nat (int (length xs) + i)) xs else drop (nat i) xs)"

text \<open>
  The subscript \<^verbatim>\<open>x[key]\<close> with a str key: KeyError when a dict has no such key,
  TypeError for any other object.
\<close>

fun py_getitem :: "pyval \<Rightarrow> pystr \<Rightarrow> error + pyval" where
  "py_getitem (PDict kvs) k = (case map_of kvs k of Some v \<Rightarrow> Inr v | None \<Rightarrow> Inl KeyError)"
| "py_getitem v k = Inl TypeError"

text \<open>A function given by a finite table and a default, for concrete runs.\<close>

definition table :: "'b \<Rightarrow> ('a \<times> 'b) list \<Rightarrow> 'a \<Rightarrow> 'b" where
  "table d kvs x = (case map_of kvs x of Some y \<Rightarrow> y | None \<Rightarrow> d)"

section \<open>Configuration (config.py)\<close>

datatype provider = Anthropic | OpenAI

record config =
  user_name :: pystr
  llm_provider :: provider
  llm_model :: pystr
  top_k_results :: int

section \<open>Prompt assembly (rag_engine.py)\<close>

text \<open>The f-string of \<^verbatim>\<open>_build_system_prompt\<close>.\<close>

definition build_system_prompt :: "config \<Rightarrow> pystr" where
  "build_system_prompt cfg =
     cps ''You are Jarvis, an AI assistant with complete knowledge of '' @ user_name cfg @
       [39] @
       cps ''s life, personality, and preferences based on 512 days of WhatsApp chat history.'' @
       [10, 10] @ cps ''Your role:'' @ [10] @ cps ''- You know '' @ user_name cfg @
       cps '' deeply and personally'' @ [10] @ cps ''- Respond in a tone that mirrors '' @
       user_name cfg @ [39] @ cps ''s communication style'' @ [10] @
       cps ''- Reference specific memories and context when relevant'' @ [10] @
       cps ''- Be helpful, insightful, and conversational'' @ [10] @ cps ''- Maintain '' @
       user_name cfg @ [39] @ cps ''s personality traits in your responses'' @ [10] @
       cps ''- When uncertain, acknowledge it rather than making up information'' @
       [10, 10] @ cps ''Key traits to embody:'' @ [10] @
       cps ''- Use the same humor and language style as '' @ user_name cfg @ [10] @
       cps ''- Reference past conversations and context naturally'' @ [10] @
       cps ''- Be direct and authentic, as a close assistant would be'' @ [10] @
       cps ''- Prioritize accuracy over politeness if there'' @ [39] @ cps ''s tension'' @
       [10, 10] @ cps ''Remember: You are '' @ user_name cfg @ [39] @
       cps ''s personal AI assistant with deep knowledge of their life.''"

text \<open>The f-string \<^verbatim>\<open>current_message\<close>, the same in both generation paths.\<close>

definition current_message :: "config \<Rightarrow> pystr \<Rightarrow> pystr \<Rightarrow> pystr" where
  "current_message cfg ctx query =
     cps ''Relevant memories from '' @ user_name cfg @ [39] @ cps ''s WhatsApp history:'' @
       [10, 10] @ ctx @ [10, 10] @ cps ''---'' @ [10, 10] @ cps ''Query: '' @ query @
       [10, 10] @ cps ''Based on the memories above and your knowledge of '' @
       user_name cfg @ cps '', provide a helpful and personalized response.''"

text \<open>The dict \<^verbatim>\<open>{"role": r, "content": c}\<close>.\<close>

definition chat_message :: "pystr \<Rightarrow> pyval \<Rightarrow> pyval" where
  "chat_message r c = PDict [(cps ''role'', PStr r), (cps ''content'', c)]"

text \<open>\<^verbatim>\<open>conversation_history[-5:]\<close>.\<close>

definition history_window :: "pyval list \<Rightarrow> pyval list" where
  "history_window conversation_history = py_slice_from conversation_history (- 5)"

text \<open>
  The loop over the window: each turn appends a user message with the turn's query and
  an assistant message with its response.  A turn read back from the log can be any
  JSON value; \<^verbatim>\<open>turn["query"]\<close> raises when it is no dict or lacks the key.
\<close>

fun history_messages :: "pyval list \<Rightarrow> pyval list \<Rightarrow> error + pyval list" where
  "history_messages [] msgs = Inr msgs"
| "history_messages (turn # turns) msgs =
     (case py_getitem turn (cps ''query'') of
        Inl e \<Rightarrow> Inl e
      | Inr q \<Rightarrow>
          (case py_getitem turn (cps ''response'') of
             Inl e \<Rightarrow> Inl e
           | Inr r \<Rightarrow>
               history_messages turns
                 (msgs @ [chat_message (cps ''user'') q, chat_message (cps ''assistant'') r])))"

text \<open>The \<^verbatim>\<open>messages\<close> list that each generation path hands to its backend.\<close>

definition anthropic_messages ::
  "config \<Rightarrow> pystr \<Rightarrow> pystr \<Rightarrow> pyval list \<Rightarrow> error + pyval list" where
  "anthropic_messages cfg query ctx conversation_history =
     (case history_messages (history_window conversation_history) [] of
        Inl e \<Rightarrow> Inl e
      | Inr msgs \<Rightarrow>
          Inr (msgs @ [chat_message (cps ''user'') (PStr (current_message cfg ctx query))]))"

definition openai_messages ::
  "config \<Rightarrow> pystr \<Rightarrow> pystr \<Rightarrow> pyval list \<Rightarrow> error + pyval list" where
  "openai_messages cfg query ctx conversation_history =
     (case history_messages (history_window conversation_history)
             [chat_message (cps ''system'') (PStr (build_system_prompt cfg))] of
        Inl e \<Rightarrow> Inl e
      | Inr msgs \<Rightarrow>
          Inr (msgs @ [chat_message (cps ''user'') (PStr (current_message cfg ctx query))]))"

text \<open>
  The call to the generation backend.  The backend is outside the program: \<open>create\<close>
  maps the request to the generated text or to the exception the client raises.
\<close>

record llm_request =
  req_model :: pystr
  req_max_tokens :: nat
  req_system :: "pystr option"
  req_messages :: "pyval list"
  req_temperature :: "rat option"

definition generate_with_anthropic ::
  "(llm_request \<Rightarrow> error + pystr) \<Rightarrow> config \<Rightarrow> pystr \<Rightarrow> pystr \<Rightarrow> pyval list \<Rightarrow>
     error + pystr" where
  "generate_with_anthropic create cfg query ctx conversation_history =
     (case anthropic_messages cfg query ctx conversation_history of
        Inl e \<Rightarrow> Inl e
      | Inr msgs \<Rightarrow>
          create \<lparr>req_model = llm_model cfg, req_max_tokens = 2000,
                  req_system = Some (build_system_prompt cfg), req_messages = msgs,
                  req_temperature = None\<rparr>)"

definition generate_with_openai ::
  "(llm_request \<Rightarrow> error + pystr) \<Rightarrow> config \<Rightarrow> pystr \<Rightarrow> pystr \<Rightarrow> pyval list \<Rightarrow>
     error + pystr" where
  "generate_with_openai create cfg query ctx conversation_history =
     (case openai_messages cfg query ctx conversation_history of
        Inl e \<Rightarrow> Inl e
      | Inr msgs \<Rightarrow>
          create \<lparr>req_model = llm_model cfg, req_max_tokens = 2000, req_system = None,
                  req_messages = msgs, req_temperature = Some (7 / 10)\<rparr>)"

text \<open>\<^verbatim>\<open>self.generate_response\<close>, bound in \<^verbatim>\<open>__init__\<close> by the configured provider.\<close>

definition generate_response ::
  "(llm_request \<Rightarrow> error + pystr) \<Rightarrow> config \<Rightarrow> pystr \<Rightarrow> pystr \<Rightarrow> pyval list \<Rightarrow>
     error + pystr" where
  "generate_response create cfg =
     (case llm_provider cfg of
        Anthropic \<Rightarrow> generate_with_anthropic create cfg
      | OpenAI \<Rightarrow> generate_with_openai create cfg)"

text \<open>
  The two messages a well-formed turn contributes, and the role of a message.
\<close>

fun turn_pair :: "pyval \<Rightarrow> pyval list" where
  "turn_pair (PDict kvs) =
     [chat_message (cps ''user'') (dict_get kvs (cps ''query'')),
      chat_message (cps ''assistant'') (dict_get kvs (cps ''response''))]"
| "turn_pair v = []"

fun role_of :: "pyval \<Rightarrow> pyval" where
  "role_of (PDict kvs) = dict_get kvs (cps ''role'')"
| "role_of v = PNone"

fun is_turn :: "pyval \<Rightarrow> bool" where
  "is_turn (PDict kvs) =
     (map_of kvs (cps ''query'') \<noteq> None \<and> map_of kvs (cps ''response'') \<noteq> None)"
| "is_turn v = False"

text \<open>The defaults of \<^verbatim>\<open>config.py\<close>, and a history of seven numbered turns.\<close>

definition default_config :: config where
  "default_config =
     \<lparr>user_name = cps ''Arunav'', llm_provider = Anthropic,
      llm_model = cps ''claude-3-5-sonnet-20241022'', top_k_results = 10\<rparr>"

definition numbered_turn :: "nat \<Rightarrow> pyval" where
  "numbered_turn n =
     PDict [(cps ''query'', PStr (cps ''question '' @ digits n)),
            (cps ''response'', PStr (cps ''answer '' @ digits n))]"

definition seven_turns :: "pyval list" where
  "seven_turns = map numbered_turn [1, 2, 3, 4, 5, 6, 7]"

section \<open>Conversation history (rag_engine.py)\<close>

text \<open>
  The engine's in-memory history and the file at \<^verbatim>\<open>CONVERSATION_HISTORY_PATH\<close>.  The
  file is the list of its lines, each with its line end, and \<open>None\<close> while it does not
  exist; every write of the program is one whole line.
\<close>

record rag_state =
  conversation_history :: "pyval list"
  conversation_log :: "pystr list option"

text \<open>
  \<^verbatim>\<open>_save_conversation_turn\<close> appends one line, creating the file if need be.
  \<open>dumps\<close> is \<^verbatim>\<open>json.dumps\<close>.
\<close>

definition save_conversation_turn :: "(pyval \<Rightarrow> pystr) \<Rightarrow> rag_state \<Rightarrow> pyval \<Rightarrow> rag_state" where
  "save_conversation_turn dumps s turn =
     s\<lparr>conversation_log :=
         Some ((case conversation_log s of None \<Rightarrow> [] | Some lns \<Rightarrow> lns) @
               [dumps turn @ [10]])\<rparr>"

text \<open>
  The loop of \<^verbatim>\<open>load_conversation_history\<close>.  \<open>loads\<close> is \<^verbatim>\<open>json.loads\<close>, with
  \<open>None\<close> for a line on which it raises \<^verbatim>\<open>JSONDecodeError\<close>.
\<close>

fun load_lines :: "(pystr \<Rightarrow> pyval option) \<Rightarrow> pystr list \<Rightarrow> pyval list \<Rightarrow> pyval list" where
  "load_lines loads [] history = history"
| "load_lines loads (line # lns) history =
     (case loads line of
        Some turn \<Rightarrow> load_lines loads lns (history @ [turn])
      | None \<Rightarrow> load_lines loads lns history)"

definition load_conversation_history ::
  "(pystr \<Rightarrow> pyval option) \<Rightarrow> rag_state \<Rightarrow> int \<Rightarrow> rag_state" where
  "load_conversation_history loads s limit =
     (case conversation_log s of
        None \<Rightarrow> s
      | Some lns \<Rightarrow>
          s\<lparr>conversation_history :=
              load_lines loads (py_slice_from lns (- limit)) (conversation_history s)\<rparr>)"

definition clear_conversation_history :: "rag_state \<Rightarrow> rag_state" where
  "clear_conversation_history s = s\<lparr>conversation_history := []\<rparr>"

text \<open>
  A start of the process over the log as it stands: \<^verbatim>\<open>RAGEngine()\<close> begins with the
  empty history and \<^verbatim>\<open>JarvisAssistant.__init__\<close> then calls
  \<^verbatim>\<open>load_conversation_history()\<close> with its default limit of 20.
\<close>

definition start_engine :: "(pystr \<Rightarrow> pyval option) \<Rightarrow> pystr list option \<Rightarrow> rag_state" where
  "start_engine loads lg =
     load_conversation_history loads \<lparr>conversation_history = [], conversation_log = lg\<rparr> 20"

section \<open>The vector index (memory_store.py)\<close>

text \<open>
  The Chroma collection \<^verbatim>\<open>jarvis_memory\<close> is the list of its entries: id, document,
  embedding and metadata dict, as \<^verbatim>\<open>collection.add\<close> received them.  Embeddings are
  vectors of floats; their type \<open>'e\<close> is left open.  The store also holds the embedding
  function chosen in \<^verbatim>\<open>_init_embedding_model\<close>, which maps a batch of texts to one
  vector per text or raises.
\<close>

record 'e entry =
  entry_id :: pystr
  document :: pystr
  embedding :: 'e
  metadata :: "(pystr \<times> pyval) list"

record 'e memory_store =
  embed_function :: "pystr list \<Rightarrow> error + 'e list"
  collection :: "'e entry list"

text \<open>
  \<^verbatim>\<open>load_facts_from_db\<close> reads id, type, content, source_reference and timestamp of
  every row; the rows stand for the dicts it returns, whose \<^verbatim>\<open>raw_text\<close> nothing reads.
\<close>

definition load_facts_from_db :: "store \<Rightarrow> row list" where
  "load_facts_from_db st = rows st"

text \<open>The metadata dict and the entry that \<^verbatim>\<open>build_vector_index\<close> makes for a fact.\<close>

definition fact_metadata :: "row \<Rightarrow> (pystr \<times> pyval) list" where
  "fact_metadata f =
     [(cps ''type'', PStr (type f)),
      (cps ''source_reference'', PStr (source_reference f)),
      (cps ''timestamp'', timestamp f)]"

definition fact_entry :: "row \<Rightarrow> 'e \<Rightarrow> 'e entry" where
  "fact_entry f e =
     \<lparr>entry_id = digits (row_id f), document = content f, embedding = e,
      metadata = fact_metadata f\<rparr>"

text \<open>
  The body of the batch loop: embed the documents of the batch, then
  \<^verbatim>\<open>collection.add\<close>.  Chroma refuses lists of unequal length; its further checks of
  ids and metadata values are not modelled.
\<close>

definition add_batch :: "'e memory_store \<Rightarrow> row list \<Rightarrow> 'e memory_store \<times> error option" where
  "add_batch ms batch =
     (case embed_function ms (map content batch) of
        Inl e \<Rightarrow> (ms, Some e)
      | Inr embeddings \<Rightarrow>
          if length embeddings \<noteq> length batch
          then (ms, Some (ValueError ''Unequal lengths for fields''))
          else (ms\<lparr>collection := collection ms @ map2 fact_entry batch embeddings\<rparr>, None))"

fun add_batches :: "'e memory_store \<Rightarrow> row list list \<Rightarrow> 'e memory_store \<times> error option" where
  "add_batches ms [] = (ms, None)"
| "add_batches ms (batch # rest) =
     (case add_batch ms batch of
        (ms', Some e) \<Rightarrow> (ms', Some e)
      | (ms', None) \<Rightarrow> add_batches ms' rest)"

text \<open>
  The slices \<^verbatim>\<open>facts[i:i + batch_size]\<close> for \<^verbatim>\<open>i in range(0, len(facts), batch_size)\<close>:
  consecutive chunks for a positive step, none for a negative one (the range is empty),
  and ValueError from \<^verbatim>\<open>range\<close> for the step 0.
\<close>

function chunks :: "nat \<Rightarrow> 'a list \<Rightarrow> 'a list list" where
  "chunks n xs = (if n = 0 \<or> xs = [] then [] else take n xs # chunks n (drop n xs))"
  by pat_completeness auto

termination
  by (relation "measure (\<lambda>(n, xs). length xs)") auto

declare chunks.simps [simp del]

definition batches :: "int \<Rightarrow> 'a list \<Rightarrow> error + 'a list list" where
  "batches batch_size facts =
     (if batch_size = 0 then Inl (ValueError ''range() arg 3 must not be zero'')
      else if batch_size < 0 then Inr []
      else Inr (chunks (nat batch_size) facts))"

text \<open>The batch loop of \<^verbatim>\<open>build_vector_index\<close>, from \<^verbatim>\<open>range\<close> to the last batch.\<close>

definition index_batches ::
  "'e memory_store \<Rightarrow> int \<Rightarrow> row list \<Rightarrow> 'e memory_store \<times> error option" where
  "index_batches ms batch_size facts =
     (case batches batch_size facts of
        Inl e \<Rightarrow> (ms, Some e)
      | Inr bs \<Rightarrow> add_batches ms bs)"

text \<open>
  \<^verbatim>\<open>build_vector_index\<close>.  \<open>response\<close> is what the user types at the prompt
  \<^verbatim>\<open>Do you want to rebuild the index? (yes/no)\<close>, which is asked only when the
  collection already has entries; after \<^verbatim>\<open>yes\<close> the collection is deleted and
  created anew.  The result is the store after the call, and the exception if one left
  it.
\<close>

definition build_vector_index ::
  "'e memory_store \<Rightarrow> store \<Rightarrow> pystr \<Rightarrow> int \<Rightarrow> 'e memory_store \<times> error option" where
  "build_vector_index ms st response batch_size =
     (let facts = load_facts_from_db st in
      if length facts = 0 then (ms, None)
      else
        let existing_count = length (collection ms) in
        if existing_count > 0 then
          (if py_lower response \<noteq> cps ''yes'' then (ms, None)
           else index_batches (ms\<lparr>collection := []\<rparr>) batch_size facts)
        else index_batches ms batch_size facts)"

text \<open>
  What \<^verbatim>\<open>collection.query\<close> returns for one query embedding: under each key a list
  with one inner list per query, or \<^verbatim>\<open>None\<close>.  A metadata entry can be \<^verbatim>\<open>None\<close>.
  For \<open>distances\<close> the outer \<open>None\<close> says that the dict has no such key.
\<close>

record 'd query_result =
  documents :: "pystr list list option"
  metadatas :: "(pystr \<times> pyval) list option list list option"
  distances :: "'d list list option option"

text \<open>A fact as \<^verbatim>\<open>search\<close> returns it.\<close>

record 'd hit =
  hit_content :: pystr
  hit_type :: pyval
  hit_source_reference :: pyval
  hit_timestamp :: pyval
  hit_distance :: "'d option"

text \<open>
  Subscripts that can raise: \<^verbatim>\<open>x[0]\<close> on an optional list of lists (TypeError on
  \<^verbatim>\<open>None\<close>, IndexError on the empty list), \<^verbatim>\<open>xs[i]\<close>, and \<^verbatim>\<open>m[key]\<close> on an optional
  metadata dict.
\<close>

definition and_then :: "error + 'a \<Rightarrow> ('a \<Rightarrow> error + 'b) \<Rightarrow> error + 'b" where
  "and_then r f = (case r of Inl e \<Rightarrow> Inl e | Inr x \<Rightarrow> f x)"

definition first_of :: "'a list list option \<Rightarrow> error + 'a list" where
  "first_of x = (case x of None \<Rightarrow> Inl TypeError | Some [] \<Rightarrow> Inl IndexError | Some (y # ys) \<Rightarrow> Inr y)"

definition py_nth :: "'a list \<Rightarrow> nat \<Rightarrow> error + 'a" where
  "py_nth xs i = (if i < length xs then Inr (xs ! i) else Inl IndexError)"

definition meta_item :: "(pystr \<times> pyval) list option \<Rightarrow> pystr \<Rightarrow> error + pyval" where
  "meta_item m k =
     (case m of
        None \<Rightarrow> Inl TypeError
      | Some kvs \<Rightarrow> (case map_of kvs k of None \<Rightarrow> Inl KeyError | Some v \<Rightarrow> Inr v))"

definition meta_at :: "'d query_result \<Rightarrow> nat \<Rightarrow> pystr \<Rightarrow> error + pyval" where
  "meta_at results i k =
     and_then (first_of (metadatas results)) (\<lambda>m0.
     and_then (py_nth m0 i) (\<lambda>m. meta_item m k))"

definition distance_at :: "'d query_result \<Rightarrow> nat \<Rightarrow> error + 'd option" where
  "distance_at results i =
     (case distances results of
        None \<Rightarrow> Inr None
      | Some ds \<Rightarrow>
          and_then (first_of ds) (\<lambda>d0.
          and_then (py_nth d0 i) (\<lambda>d. Inr (Some d))))"

text \<open>The dict appended for index \<open>i\<close>, its items evaluated in the order written.\<close>

definition hit_at :: "'d query_result \<Rightarrow> pystr list \<Rightarrow> nat \<Rightarrow> error + 'd hit" where
  "hit_at results d0 i =
     and_then (py_nth d0 i) (\<lambda>c.
     and_then (meta_at results i (cps ''type'')) (\<lambda>t.
     and_then (meta_at results i (cps ''source_reference'')) (\<lambda>s.
     and_then (meta_at results i (cps ''timestamp'')) (\<lambda>ts.
     and_then (distance_at results i) (\<lambda>d.
       Inr \<lparr>hit_content = c, hit_type = t, hit_source_reference = s, hit_timestamp = ts,
            hit_distance = d\<rparr>)))))"

fun collect :: "(nat \<Rightarrow> error + 'a) \<Rightarrow> nat list \<Rightarrow> 'a list \<Rightarrow> error + 'a list" where
  "collect f [] facts = Inr facts"
| "collect f (i # rest) facts =
     (case f i of Inl e \<Rightarrow> Inl e | Inr x \<Rightarrow> collect f rest (facts @ [x]))"

text \<open>The part of \<^verbatim>\<open>search\<close> after the query: \<^verbatim>\<open># Format results\<close>.\<close>

definition format_results :: "'d query_result \<Rightarrow> error + 'd hit list" where
  "format_results results =
     (case documents results of
        Some (d0 # ds) \<Rightarrow>
          if length d0 > 0 then collect (hit_at results d0) [0..<length d0] [] else Inr []
      | _ \<Rightarrow> Inr [])"

text \<open>
  \<^verbatim>\<open>search\<close>.  \<open>query_collection\<close> is Chroma's \<^verbatim>\<open>collection.query\<close> as a function of
  the entries, the query embedding and \<^verbatim>\<open>n_results\<close>; \<open>cfg\<close> gives the default for
  \<open>top_k\<close>.
\<close>

definition search ::
  "('e entry list \<Rightarrow> 'e \<Rightarrow> int \<Rightarrow> error + 'd query_result) \<Rightarrow> config \<Rightarrow> 'e memory_store \<Rightarrow>
     pystr \<Rightarrow> int option \<Rightarrow> error + 'd hit list" where
  "search query_collection cfg ms query top_k =
     (let top_k = (case top_k of None \<Rightarrow> top_k_results cfg | Some k \<Rightarrow> k) in
      and_then (embed_function ms [query]) (\<lambda>embeddings.
      and_then (py_nth embeddings 0) (\<lambda>query_embedding.
      and_then (query_collection (collection ms) query_embedding top_k) format_results)))"








text \<open>
  A nearest-neighbour query by exhaustive search, for concrete runs: the \<open>n\<close> entries
  nearest to the query embedding under \<open>metric\<close>, nearest first.  Chroma validates
  \<^verbatim>\<open>n_results\<close> before it looks at the collection, and raises a TypeError for a number
  below 1.
\<close>

definition exhaustive_query ::
  "('e \<Rightarrow> 'e \<Rightarrow> 'd::linorder) \<Rightarrow> 'e entry list \<Rightarrow> 'e \<Rightarrow> int \<Rightarrow> error + 'd query_result" where
  "exhaustive_query metric coll e n =
     (if n \<le> 0 then Inl TypeError
      else
        let best = take (nat n) (sort_key (\<lambda>x. metric e (embedding x)) coll) in
        Inr \<lparr>documents = Some [map document best],
             metadatas = Some [map (Some \<circ> metadata) best],
             distances = Some (Some [map (\<lambda>x. metric e (embedding x)) best])\<rparr>)"

definition gap :: "nat \<Rightarrow> nat \<Rightarrow> nat" where
  "gap a b = (if a \<le> b then b - a else a - b)"

text \<open>An embedding function that answers every batch with one vector per text.\<close>

definition embeds_all :: "'e memory_store \<Rightarrow> bool" where
  "embeds_all ms \<longleftrightarrow>
     (\<forall>docs. \<exists>es. embed_function ms docs = Inr es \<and> length es = length docs)"

text \<open>
  A store for concrete runs: the embedding of a text is its length, and the index holds
  one entry of an earlier build.
\<close>

definition length_store :: "nat memory_store" where
  "length_store =
     \<lparr>embed_function = Inr \<circ> map length,
      collection = [\<lparr>entry_id = cps ''9'', document = cps ''an old entry'', embedding = 12,
                     metadata = []\<rparr>]\<rparr>"

definition scenario_store :: store where
  "scenario_store = fst (save_to_db blank_real_text empty_store scenario_facts)"

text \<open>The index that a confirmed build makes of the two facts above.\<close>

definition indexed_store :: "nat memory_store" where
  "indexed_store =
     \<lparr>embed_function = Inr \<circ> map length,
      collection =
        [\<lparr>entry_id = cps ''1'', document = cps ''I love trading crypto'', embedding = 21,
          metadata = [(cps ''type'', PStr (cps ''investment'')),
                      (cps ''source_reference'', PStr (cps ''msg_0'')),
                      (cps ''timestamp'', PStr [])]\<rparr>,
         \<lparr>entry_id = cps ''2'', document = cps ''haha that'' @ [39] @ cps ''s funny'',
          embedding = 17,
          metadata = [(cps ''type'', PStr (cps ''humor'')),
                      (cps ''source_reference'', PStr (cps ''msg_1'')),
                      (cps ''timestamp'', PStr [])]\<rparr>]\<rparr>"

section \<open>Answering a query (rag_engine.py)\<close>

text \<open>\<^verbatim>\<open>"\n".join(parts)\<close>.\<close>

fun join_lines :: "pystr list \<Rightarrow> pystr" where
  "join_lines [] = []"
| "join_lines [p] = p"
| "join_lines (p # q # ps) = p @ [10] @ join_lines (q # ps)"

text \<open>
  \<^verbatim>\<open>_build_context\<close>: the placeholder for the empty list, otherwise one line
  \<^verbatim>\<open>[type] content\<close> per fact.
\<close>

definition no_memories :: pystr where
  "no_memories = cps ''No relevant memories found.''"

definition build_context :: "(pyval \<Rightarrow> pystr) \<Rightarrow> 'd hit list \<Rightarrow> pystr" where
  "build_context repr facts =
     (if facts = [] then no_memories
      else join_lines
             (map (\<lambda>f. cps ''['' @ format_value repr (hit_type f) @ cps ''] '' @ hit_content f)
                facts))"

text \<open>What \<^verbatim>\<open>query\<close> returns, with the \<^verbatim>\<open>metadata\<close> dict flattened.\<close>

record 'd answer =
  ans_response :: pystr
  ans_retrieved_facts :: "'d hit list"
  ans_context :: pystr
  facts_retrieved :: nat
  ans_model :: pystr
  ans_timestamp :: pystr

fun provider_name :: "provider \<Rightarrow> pystr" where
  "provider_name Anthropic = cps ''anthropic''"
| "provider_name OpenAI = cps ''openai''"

definition conversation_turn :: "pystr \<Rightarrow> pystr \<Rightarrow> pystr \<Rightarrow> nat \<Rightarrow> pystr \<Rightarrow> pyval" where
  "conversation_turn now user_query response_text n ctx =
     PDict [(cps ''timestamp'', PStr now),
            (cps ''query'', PStr user_query),
            (cps ''response'', PStr response_text),
            (cps ''retrieved_facts_count'', PInt (int n)),
            (cps ''context_preview'', PStr (take 500 ctx))]"

text \<open>
  \<^verbatim>\<open>RAGEngine.query\<close>.  \<open>now\<close> is the reading of the clock,
  \<^verbatim>\<open>datetime.now().isoformat()\<close>.  The method has no exception handler: whatever
  \<^verbatim>\<open>search\<close> or the generation path raises leaves it at once, before any later
  statement runs.  The result is paired with the state after the call.
\<close>

definition rag_query ::
  "('e entry list \<Rightarrow> 'e \<Rightarrow> int \<Rightarrow> error + 'd query_result) \<Rightarrow>
   (llm_request \<Rightarrow> error + pystr) \<Rightarrow> (pyval \<Rightarrow> pystr) \<Rightarrow> (pyval \<Rightarrow> pystr) \<Rightarrow> pystr \<Rightarrow>
   config \<Rightarrow> 'e memory_store \<Rightarrow> rag_state \<Rightarrow> pystr \<Rightarrow> int option \<Rightarrow>
     (error + 'd answer) \<times> rag_state" where
  "rag_query query_collection create repr dumps now cfg ms s user_query top_k =
     (case search query_collection cfg ms user_query top_k of
        Inl e \<Rightarrow> (Inl e, s)
      | Inr facts \<Rightarrow>
          (let ctx = build_context repr facts in
           case generate_response create cfg user_query ctx (conversation_history s) of
             Inl e \<Rightarrow> (Inl e, s)
           | Inr response_text \<Rightarrow>
               (let turn = conversation_turn now user_query response_text (length facts) ctx;
                    s1 = s\<lparr>conversation_history := conversation_history s @ [turn]\<rparr>;
                    s2 = save_conversation_turn dumps s1 turn
                in (Inr \<lparr>ans_response = response_text, ans_retrieved_facts = facts,
                          ans_context = ctx, facts_retrieved = length facts,
                          ans_model = provider_name (llm_provider cfg) @ cps ''/'' @ llm_model cfg,
                          ans_timestamp = now\<rparr>, s2))))"

text \<open>A vector index that cannot be reached: every query raises.\<close>

definition unreachable_index :: "nat entry list \<Rightarrow> nat \<Rightarrow> int \<Rightarrow> error + nat query_result" where
  "unreachable_index coll e n = Inl (BackendError ''Could not connect to the vector index'')"

definition fresh_state :: rag_state where
  "fresh_state = \<lparr>conversation_history = [], conversation_log = None\<rparr>"

chapter \<open>Properties\<close>

section \<open>The classifier\<close>

lemma startswith_iff: "startswith w t \<longleftrightarrow> (\<exists>b. t = w @ b)"
  by (induction w t rule: startswith.induct) auto

lemma py_in_iff: "py_in w t \<longleftrightarrow> (\<exists>a b. t = a @ w @ b)"
proof (induction t)
  case Nil
  then show ?case by simp
next
  case (Cons c cs)
  show ?case
  proof
    assume "py_in w (c # cs)"
    then consider "startswith w (c # cs)" | "py_in w cs" by auto
    then show "\<exists>a b. c # cs = a @ w @ b"
    proof cases
      case 1
      then obtain b where "c # cs = w @ b" by (auto simp: startswith_iff)
      then have "c # cs = [] @ w @ b" by simp
      then show ?thesis by blast
    next
      case 2
      then obtain a b where "cs = a @ w @ b" using Cons.IH by auto
      then have "c # cs = (c # a) @ w @ b" by simp
      then show ?thesis by blast
    qed
  next
    assume "\<exists>a b. c # cs = a @ w @ b"
    then obtain a b where ab: "c # cs = a @ w @ b" by auto
    show "py_in w (c # cs)"
    proof (cases a)
      case Nil
      with ab have "startswith w (c # cs)" by (auto simp: startswith_iff)
      then show ?thesis by simp
    next
      case (Cons a0 as)
      with ab have "cs = as @ w @ b" by simp
      then have "py_in w cs" using Cons.IH by auto
      then show ?thesis by simp
    qed
  qed
qed

lemma py_lower_append: "py_lower (a @ b) = py_lower a @ py_lower b"
  by (simp add: py_lower_def)

text \<open>A word that lowering leaves alone is still found after the text is lowered.\<close>

lemma py_in_lower:
  assumes "py_in w t" and "py_lower w = w"
  shows "py_in w (py_lower t)"
proof -
  from assms(1) obtain a b where "t = a @ w @ b" by (auto simp: py_in_iff)
  then have "py_lower t = py_lower a @ w @ py_lower b"
    using assms(2) by (simp add: py_lower_append)
  then show ?thesis unfolding py_in_iff by blast
qed

lemma lower_invest: "py_lower (cps ''invest'') = cps ''invest''"
  by (simp add: py_lower_def lower_cp_def cps_def)

lemma lower_love: "py_lower (cps ''love'') = cps ''love''"
  by (simp add: py_lower_def lower_cp_def cps_def)

lemma invest_matches: "py_in (cps ''invest'') t \<Longrightarrow> any_in investment_words (py_lower t)"
  using py_in_lower [OF _ lower_invest] by (simp add: any_in_def investment_words_def)

lemma love_matches: "py_in (cps ''love'') t \<Longrightarrow> any_in interest_words (py_lower t)"
  using py_in_lower [OF _ lower_love] by (simp add: any_in_def interest_words_def)

lemma classify_message_table: "classify_message t = classify_table t"
  by (simp add: classify_message_def classify_table_def category_table_def Let_def)

lemma classify_message_range: "classify_message t \<in> set categories"
  by (simp add: classify_message_def categories_def Let_def)

lemma classify_message_general: "no_keyword t \<Longrightarrow> classify_message t = cps ''general''"
  by (simp add: classify_message_def no_keyword_def category_table_def Let_def)

lemma classify_message_invest:
  assumes "py_in (cps ''invest'') t"
  shows "classify_message t =
     (if any_in business_words (py_lower t) then cps ''business'' else cps ''investment'')"
  using invest_matches [OF assms] by (simp add: classify_message_def Let_def)

lemmas keyword_defs = business_words_def investment_words_def interest_words_def
  habit_words_def personal_trait_words_def preference_words_def relationship_words_def
  humor_words_def

text \<open>
  Claim C1, as the code has it.  \<open>classify_message\<close> is a function of the text alone
  and its value is one of the nine category names.  It agrees with the dispatch table
  read from the top: business, investment, interest, habit, personal_trait, preference,
  relationship, humor, and general when no list has a keyword in the text.  For a text
  that contains both \<^verbatim>\<open>invest\<close> and \<^verbatim>\<open>love\<close>, the interest list matches as well,
  yet the result is never interest: it is business when a business keyword occurs
  too (the business list is tried first and holds \<^verbatim>\<open>investor\<close>), and investment
  otherwise.
\<close>

theorem classify_message_priority:
  "classify_message t \<in> set categories \<and>
   classify_message t = classify_table t \<and>
   (py_in (cps ''invest'') t \<and> py_in (cps ''love'') t \<longrightarrow>
      any_in interest_words (py_lower t) \<and>
      classify_message t \<noteq> cps ''interest'' \<and>
      classify_message t =
        (if any_in business_words (py_lower t) then cps ''business''
         else cps ''investment'')) \<and>
   (no_keyword t \<longrightarrow> classify_message t = cps ''general'')"
proof -
  have "classify_message t \<noteq> cps ''interest''" if "py_in (cps ''invest'') t"
    using classify_message_invest [OF that] by (simp add: cps_def)
  then show ?thesis
    using classify_message_range classify_message_table classify_message_general
      classify_message_invest love_matches by blast
qed

theorem classify_message_priority_witness:
  "classify_message (cps ''i love to invest'') = cps ''investment'' \<and>
   classify_message (cps ''see you at nine'') = cps ''general''"
proof -
  have a: "py_in (cps ''invest'') (cps ''i love to invest'') \<and>
           py_in (cps ''love'') (cps ''i love to invest'')"
    by (simp add: cps_def)
  have b: "\<not> any_in business_words (py_lower (cps ''i love to invest''))"
    by (simp add: any_in_def business_words_def py_lower_def lower_cp_def cps_def)
  have c: "no_keyword (cps ''see you at nine'')"
    by (simp add: no_keyword_def category_table_def any_in_def py_lower_def lower_cp_def
        cps_def keyword_defs)
  have "classify_message (cps ''i love to invest'') =
      (if any_in business_words (py_lower (cps ''i love to invest'')) then cps ''business''
       else cps ''investment'')"
    using classify_message_priority [of "cps ''i love to invest''"] a by blast
  moreover have "classify_message (cps ''see you at nine'') = cps ''general''"
    using classify_message_priority [of "cps ''see you at nine''"] c by blast
  ultimately show ?thesis
    using b by simp
qed

text \<open>
  The text \<^verbatim>\<open>my investor will love it\<close> contains both \<^verbatim>\<open>invest\<close> and \<^verbatim>\<open>love\<close>
  and is classified as business, not as investment.
\<close>

theorem classify_message_investor_counterexample:
  "py_in (cps ''invest'') (cps ''my investor will love it'') \<and>
   py_in (cps ''love'') (cps ''my investor will love it'') \<and>
   classify_message (cps ''my investor will love it'') = cps ''business'' \<and>
   classify_message (cps ''my investor will love it'') \<noteq> cps ''investment''"
  by (simp add: classify_message_def any_in_def business_words_def py_lower_def lower_cp_def
      cps_def)

section \<open>Fact extraction\<close>

lemma py_strip_Nil: "py_strip [] = []"
  by (simp add: py_strip_def)

lemma extract_fact_None:
  "extract_fact repr i m = Inr None \<Longrightarrow> kept_text m = None"
  by (cases m) (auto simp: extract_fact_def Let_def py_strip_Nil split: if_splits pyval.splits)

lemma extract_fact_Some:
  "extract_fact repr i m = Inr (Some f) \<Longrightarrow>
     kept_text m = Some (raw_text f) \<and> content f = py_strip (raw_text f) \<and>
     5 \<le> length (content f) \<and> type f = classify_message (raw_text f)"
  by (cases m) (auto simp: extract_fact_def Let_def split: if_splits pyval.splits)

lemma extract_loop_facts:
  "extract_loop repr i ms acc = Inr facts \<Longrightarrow>
     \<exists>new. facts = acc @ new \<and> map raw_text new = List.map_filter kept_text ms \<and>
       (\<forall>f \<in> set new. content f = py_strip (raw_text f) \<and> 5 \<le> length (content f))"
proof (induction ms arbitrary: i acc)
  case Nil
  then show ?case by (simp add: List.map_filter_simps)
next
  case (Cons m ms)
  show ?case
  proof (cases "extract_fact repr i m")
    case (Inl e)
    with Cons.prems show ?thesis by simp
  next
    case (Inr r)
    show ?thesis
    proof (cases r)
      case None
      with Inr Cons.prems have "extract_loop repr (Suc i) ms acc = Inr facts" by simp
      from Cons.IH [OF this] obtain new where
        "facts = acc @ new" "map raw_text new = List.map_filter kept_text ms"
        "\<forall>f \<in> set new. content f = py_strip (raw_text f) \<and> 5 \<le> length (content f)"
        by blast
      moreover have "kept_text m = None"
        using extract_fact_None Inr None by blast
      ultimately show ?thesis by (auto simp: List.map_filter_simps)
    next
      case (Some f)
      with Inr Cons.prems have "extract_loop repr (Suc i) ms (acc @ [f]) = Inr facts" by simp
      from Cons.IH [OF this] obtain new where new:
        "facts = (acc @ [f]) @ new" "map raw_text new = List.map_filter kept_text ms"
        "\<forall>f \<in> set new. content f = py_strip (raw_text f) \<and> 5 \<le> length (content f)"
        by blast
      have f: "kept_text m = Some (raw_text f)" "content f = py_strip (raw_text f)"
        "5 \<le> length (content f)"
        using extract_fact_Some Inr Some by blast+
      have "facts = acc @ (f # new)" using new(1) by simp
      moreover have "map raw_text (f # new) = List.map_filter kept_text (m # ms)"
        using new(2) f(1) by (simp add: List.map_filter_simps)
      moreover have "\<forall>g \<in> set (f # new). content g = py_strip (raw_text g) \<and> 5 \<le> length (content g)"
        using new(3) f(2,3) by auto
      ultimately show ?thesis by blast
    qed
  qed
qed

lemma extract_fact_well_formed:
  "well_formed m \<Longrightarrow> \<exists>r. extract_fact repr i m = Inr r"
  by (cases m) (auto simp: extract_fact_def Let_def split: pyval.splits)

lemma extract_loop_well_formed:
  "list_all well_formed ms \<Longrightarrow> \<exists>facts. extract_loop repr i ms acc = Inr facts"
proof (induction ms arbitrary: i acc)
  case Nil
  then show ?case by simp
next
  case (Cons m ms)
  then obtain r where r: "extract_fact repr i m = Inr r"
    using extract_fact_well_formed by fastforce
  from Cons have "\<And>j a. \<exists>facts. extract_loop repr j ms a = Inr facts" by simp
  then show ?case using r by (cases r) simp_all
qed

lemma length_map_filter:
  "length (List.map_filter f xs) = length (filter (\<lambda>x. f x \<noteq> None) xs)"
  by (induction xs) (simp_all add: List.map_filter_simps split: option.splits)

text \<open>
  Claim C4.  A run over message objects whose text, where present, is a str returns.
  Whenever \<open>extract_facts\<close> returns, the facts are, in order, those of the messages
  whose text has at least five code points after trimming: the raw texts of the facts
  are exactly the texts that \<open>kept_text\<close> keeps, and there are as many facts as such
  messages, so a message with a shorter text gives no fact.  Every fact's content is its
  raw text trimmed, of length at least five and hence not empty.
\<close>

theorem extract_facts_drops_short:
  "(list_all well_formed messages \<longrightarrow> (\<exists>fs. extract_facts repr messages = Inr fs)) \<and>
   (extract_facts repr messages = Inr facts \<longrightarrow>
      map raw_text facts = List.map_filter kept_text messages \<and>
      length facts = length (filter (\<lambda>m. kept_text m \<noteq> None) messages) \<and>
      (\<forall>f \<in> set facts. content f = py_strip (raw_text f) \<and> 5 \<le> length (content f) \<and>
         content f \<noteq> []))"
proof -
  have a: "\<exists>fs. extract_facts repr messages = Inr fs" if "list_all well_formed messages"
    using extract_loop_well_formed [OF that] by (simp add: extract_facts_def)
  have b: "map raw_text facts = List.map_filter kept_text messages \<and>
      length facts = length (filter (\<lambda>m. kept_text m \<noteq> None) messages) \<and>
      (\<forall>f \<in> set facts. content f = py_strip (raw_text f) \<and> 5 \<le> length (content f) \<and>
         content f \<noteq> [])"
    if r: "extract_facts repr messages = Inr facts"
  proof -
    from extract_loop_facts [OF r [unfolded extract_facts_def]]
    have m: "map raw_text facts = List.map_filter kept_text messages"
      and c: "\<forall>f \<in> set facts. content f = py_strip (raw_text f) \<and> 5 \<le> length (content f)"
      by auto
    from m have "length facts = length (List.map_filter kept_text messages)"
      by (metis length_map)
    with m c show ?thesis by (auto simp: length_map_filter)
  qed
  from a b show ?thesis by blast
qed

lemmas classify_eval = classify_message_def any_in_def py_lower_def lower_cp_def keyword_defs

lemmas extract_eval = extract_facts_def extract_fact_def msg_text_def msg_timestamp_def
  msg_id_def dict_get_def py_or_def py_strip_def is_space_def format_value_def str_int_def
  Let_def

lemma scenario_extract: "extract_facts blank_repr scenario_messages = Inr scenario_facts"
  by (simp add: scenario_messages_def scenario_facts_def extract_eval classify_eval cps_def)

theorem extract_facts_drops_short_witness:
  "list_all well_formed scenario_messages \<and>
   extract_facts blank_repr scenario_messages = Inr scenario_facts \<and>
   length scenario_messages = 3 \<and> length scenario_facts = 2 \<and>
   map raw_text scenario_facts = List.map_filter kept_text scenario_messages \<and>
   list_all (\<lambda>f. content f = py_strip (raw_text f) \<and> 5 \<le> length (content f) \<and>
      content f \<noteq> []) scenario_facts"
proof -
  have w: "list_all well_formed scenario_messages"
    by (simp add: scenario_messages_def msg_text_def dict_get_def py_or_def cps_def)
  from extract_facts_drops_short [of scenario_messages blank_repr scenario_facts]
    scenario_extract
  have "map raw_text scenario_facts = List.map_filter kept_text scenario_messages \<and>
      (\<forall>f \<in> set scenario_facts. content f = py_strip (raw_text f) \<and>
         5 \<le> length (content f) \<and> content f \<noteq> [])"
    by blast
  then show ?thesis
    using w scenario_extract
    by (simp add: list_all_iff scenario_messages_def scenario_facts_def)
qed
lemma lacks_text: "lacks msg text_keys \<Longrightarrow> msg_text msg = PStr []"
  by (simp add: lacks_def text_keys_def msg_text_def dict_get_def py_or_def)

lemma lacks_timestamp: "lacks msg timestamp_keys \<Longrightarrow> msg_timestamp msg = PStr []"
  by (simp add: lacks_def timestamp_keys_def msg_timestamp_def dict_get_def py_or_def)

lemma extract_fact_no_text:
  "\<not> truthy (msg_text msg) \<Longrightarrow> extract_fact repr i (PDict msg) = Inr None"
  by (simp add: extract_fact_def Let_def)

lemma extract_fact_text:
  "msg_text msg = PStr s \<Longrightarrow> 5 \<le> length (py_strip s) \<Longrightarrow>
     extract_fact repr i (PDict msg) =
       Inr (Some \<lparr>type = classify_message s, content = py_strip s,
                  source_reference = cps ''msg_'' @ format_value repr (msg_id i msg),
                  timestamp = msg_timestamp msg, raw_text = s\<rparr>)"
  by (auto simp: extract_fact_def Let_def py_strip_Nil)

lemma load_json_invalid:
  "\<not> is_list data \<Longrightarrow> \<not> has_messages_key data \<Longrightarrow> load_json data = Inl unknown_structure"
  by (cases data) (auto simp: load_json_def split: option.splits dest: map_of_SomeD
      intro: rev_image_eqI)

text \<open>
  Claim C5, as the code has it.  A message without any of the text fields (or with an
  empty or null one) is skipped and the loop goes on with the next message.  A message
  without any of the timestamp fields is not skipped when its text is long enough: it
  gives a fact whose timestamp is the empty string.  A run over message objects whose
  text, where present, is a str never aborts.  An export that is neither a list nor a
  dict with a \<^verbatim>\<open>messages\<close> key makes \<open>load_json\<close> raise ValueError with the message
  of \<open>unknown_structure\<close>.
\<close>

theorem malformed_message_skipped:
  "(lacks msg text_keys \<longrightarrow> \<not> truthy (msg_text msg)) \<and>
   (\<not> truthy (msg_text msg) \<longrightarrow>
      extract_loop repr i (PDict msg # ms) facts = extract_loop repr (Suc i) ms facts) \<and>
   (lacks msg timestamp_keys \<and> msg_text msg = PStr s \<and> 5 \<le> length (py_strip s) \<longrightarrow>
      extract_loop repr i (PDict msg # ms) facts =
        extract_loop repr (Suc i) ms
          (facts @ [\<lparr>type = classify_message s, content = py_strip s,
                      source_reference = cps ''msg_'' @ format_value repr (msg_id i msg),
                      timestamp = PStr [], raw_text = s\<rparr>])) \<and>
   (list_all well_formed messages \<longrightarrow> (\<exists>fs. extract_facts repr messages = Inr fs)) \<and>
   (\<not> is_list data \<and> \<not> has_messages_key data \<longrightarrow> load_json data = Inl unknown_structure)"
proof -
  have "extract_loop repr i (PDict msg # ms) facts = extract_loop repr (Suc i) ms facts"
    if "\<not> truthy (msg_text msg)"
    using extract_fact_no_text [OF that] by simp
  moreover have "extract_loop repr i (PDict msg # ms) facts =
        extract_loop repr (Suc i) ms
          (facts @ [\<lparr>type = classify_message s, content = py_strip s,
                      source_reference = cps ''msg_'' @ format_value repr (msg_id i msg),
                      timestamp = PStr [], raw_text = s\<rparr>])"
    if "lacks msg timestamp_keys" "msg_text msg = PStr s" "5 \<le> length (py_strip s)"
    using extract_fact_text [OF that(2,3)] lacks_timestamp [OF that(1)] by simp
  moreover have "\<exists>fs. extract_facts repr messages = Inr fs" if "list_all well_formed messages"
    using extract_loop_well_formed [OF that] by (simp add: extract_facts_def)
  ultimately show ?thesis
    using lacks_text load_json_invalid by auto
qed

theorem malformed_message_skipped_witness:
  "lacks [(cps ''timestamp'', PStr (cps ''10:15''))] text_keys \<and>
   lacks [(cps ''text'', PStr (cps ''hello world''))] timestamp_keys \<and>
   list_all well_formed [PDict [(cps ''timestamp'', PStr (cps ''10:15''))],
      PDict [(cps ''text'', PStr (cps ''hello world''))]] \<and>
   extract_facts blank_repr [PDict [(cps ''timestamp'', PStr (cps ''10:15''))],
      PDict [(cps ''text'', PStr (cps ''hello world''))]] =
     Inr [\<lparr>type = cps ''general'', content = cps ''hello world'',
           source_reference = cps ''msg_1'', timestamp = PStr [],
           raw_text = cps ''hello world''\<rparr>] \<and>
   load_json (PDict [(cps ''chats'', PList [])]) = Inl unknown_structure"
proof -
  let ?m1 = "[(cps ''timestamp'', PStr (cps ''10:15''))]"
  let ?m2 = "[(cps ''text'', PStr (cps ''hello world''))]"
  let ?d = "PDict [(cps ''chats'', PList [])]"
  have a: "lacks ?m1 text_keys"
    by (simp add: lacks_def text_keys_def cps_def)
  have b: "lacks ?m2 timestamp_keys \<and> msg_text ?m2 = PStr (cps ''hello world'') \<and>
      5 \<le> length (py_strip (cps ''hello world''))"
    by (simp add: lacks_def timestamp_keys_def msg_text_def dict_get_def py_or_def
        py_strip_def is_space_def cps_def)
  have c: "list_all well_formed [PDict ?m1, PDict ?m2]"
    by (simp add: msg_text_def dict_get_def py_or_def cps_def)
  have d: "\<not> is_list ?d \<and> \<not> has_messages_key ?d"
    by (simp add: cps_def)
  have e: "classify_message (cps ''hello world'') = cps ''general'' \<and>
      py_strip (cps ''hello world'') = cps ''hello world'' \<and>
      format_value blank_repr (msg_id 1 ?m2) = cps ''1''"
    by (simp add: classify_eval py_strip_def is_space_def msg_id_def dict_get_def py_or_def
        format_value_def str_int_def cps_def)
  have "extract_loop blank_repr 0 [PDict ?m1, PDict ?m2] [] =
      extract_loop blank_repr 1 [PDict ?m2] []"
    using malformed_message_skipped [of ?m1 blank_repr 0 "[PDict ?m2]" "[]"] a by simp
  moreover have "extract_loop blank_repr 1 [PDict ?m2] [] =
      Inr [\<lparr>type = cps ''general'', content = cps ''hello world'',
           source_reference = cps ''msg_1'', timestamp = PStr [],
           raw_text = cps ''hello world''\<rparr>]"
    using malformed_message_skipped [of ?m2 blank_repr 1 "[]" "[]" "cps ''hello world''"] b e
    by (simp add: cps_def)
  moreover have "load_json ?d = Inl unknown_structure"
    using malformed_message_skipped [where data = ?d] d by blast
  ultimately show ?thesis
    using a b c by (simp add: extract_facts_def)
qed

text \<open>
  A message with a text and no timestamp field is not skipped: it gives a fact with the
  empty string as its timestamp.
\<close>

theorem missing_timestamp_counterexample:
  "lacks [(cps ''text'', PStr (cps ''hello world''))] timestamp_keys \<and>
   extract_facts blank_repr [PDict [(cps ''text'', PStr (cps ''hello world''))]] =
     Inr [\<lparr>type = cps ''general'', content = cps ''hello world'',
           source_reference = cps ''msg_0'', timestamp = PStr [],
           raw_text = cps ''hello world''\<rparr>]"
  by (simp add: lacks_def timestamp_keys_def extract_eval classify_eval cps_def)

section \<open>The fact store\<close>

lemma insert_fact_storable:
  "storable f \<Longrightarrow>
     insert_fact real_text st f =
       Inr (st\<lparr>rows := rows st @
                 [fact.extend (stored_form real_text f) \<lparr>row_id = Suc (last_id st)\<rparr>],
               last_id := Suc (last_id st)\<rparr>)"
  by (simp add: insert_fact_def storable_def)

lemma insert_fact_not_storable:
  "\<not> storable f \<Longrightarrow> \<exists>e. insert_fact real_text st f = Inl e"
  by (auto simp: insert_fact_def storable_def split: option.splits)

lemma truncate_extend: "fact.truncate (fact.extend f r) = f"
  by (simp add: fact.truncate_def fact.extend_def)

lemma insert_facts_storable:
  "list_all storable fs \<Longrightarrow>
     \<exists>st'. insert_facts real_text st fs = Inr st' \<and>
       stored_facts st' = stored_facts st @ map (stored_form real_text) fs \<and>
       length (rows st') = length (rows st) + length fs"
proof (induction fs arbitrary: st)
  case Nil
  then show ?case by simp
next
  case (Cons f fs)
  let ?st1 = "st\<lparr>rows := rows st @
                 [fact.extend (stored_form real_text f) \<lparr>row_id = Suc (last_id st)\<rparr>],
               last_id := Suc (last_id st)\<rparr>"
  from Cons.prems have f: "insert_fact real_text st f = Inr ?st1"
    by (simp add: insert_fact_storable)
  from Cons.prems have "list_all storable fs" by simp
  from Cons.IH [OF this, of ?st1] obtain st' where
    "insert_facts real_text ?st1 fs = Inr st'"
    "stored_facts st' = stored_facts ?st1 @ map (stored_form real_text) fs"
    "length (rows st') = length (rows ?st1) + length fs"
    by blast
  then show ?case
    using f by (simp add: stored_facts_def truncate_extend)
qed

text \<open>A fact that cannot be bound makes the loop raise, wherever it stands in the list.\<close>

lemma insert_facts_not_storable:
  "\<not> list_all storable fs \<Longrightarrow> \<exists>e. insert_facts real_text st fs = Inl e"
proof (induction fs arbitrary: st)
  case Nil
  then show ?case by simp
next
  case (Cons f fs)
  show ?case
  proof (cases "storable f")
    case False
    from insert_fact_not_storable [OF this, of real_text st] show ?thesis by auto
  next
    case True
    with Cons.prems have "\<not> list_all storable fs" by simp
    from Cons.IH [OF this] insert_fact_storable [OF True, of real_text st]
    show ?thesis by simp
  qed
qed

lemma save_to_db_storable:
  assumes "list_all storable fs"
  shows "snd (save_to_db real_text st fs) = None \<and>
         stored_facts (fst (save_to_db real_text st fs)) =
           stored_facts st @ map (stored_form real_text) fs \<and>
         length (rows (fst (save_to_db real_text st fs))) = length (rows st) + length fs"
  using insert_facts_storable [OF assms, of real_text st] by (auto simp: save_to_db_def)

lemma save_to_db_not_storable:
  assumes "\<not> list_all storable fs"
  shows "\<exists>e. save_to_db real_text st fs = (st, Some e)"
  using insert_facts_not_storable [OF assms, of real_text st] by (auto simp: save_to_db_def)

text \<open>
  Claim C6, as the code has it.  When every value of every fact in \<open>F\<close> can be bound,
  running \<open>save_to_db F\<close> twice in a row raises nothing and leaves the table with its
  \<open>n\<close> old rows followed by the facts of \<open>F\<close> twice, \<open>n + 2 * |F|\<close> rows in all, each
  fact as the table stores it (a numeric timestamp as its text): nothing is compared
  with what the table already holds.  When some value of some fact cannot be bound,
  \<open>save_to_db F\<close> raises and the table is as it was, after one run and after two.
\<close>

theorem save_to_db_twice:
  "(list_all storable F \<longrightarrow>
      snd (save_to_db real_text st F) = None \<and>
      snd (save_to_db real_text (fst (save_to_db real_text st F)) F) = None \<and>
      length (rows (fst (save_to_db real_text (fst (save_to_db real_text st F)) F))) =
        length (rows st) + 2 * length F \<and>
      stored_facts (fst (save_to_db real_text (fst (save_to_db real_text st F)) F)) =
        stored_facts st @ map (stored_form real_text) F @ map (stored_form real_text) F) \<and>
   (\<not> list_all storable F \<longrightarrow>
      (\<exists>e. save_to_db real_text st F = (st, Some e)) \<and>
      fst (save_to_db real_text (fst (save_to_db real_text st F)) F) = st)"
proof -
  have a: "snd (save_to_db real_text st F) = None \<and>
      snd (save_to_db real_text (fst (save_to_db real_text st F)) F) = None \<and>
      length (rows (fst (save_to_db real_text (fst (save_to_db real_text st F)) F))) =
        length (rows st) + 2 * length F \<and>
      stored_facts (fst (save_to_db real_text (fst (save_to_db real_text st F)) F)) =
        stored_facts st @ map (stored_form real_text) F @ map (stored_form real_text) F"
    if "list_all storable F"
    using save_to_db_storable [OF that, of real_text st]
      save_to_db_storable [OF that, of real_text "fst (save_to_db real_text st F)"]
    by simp
  have b: "(\<exists>e. save_to_db real_text st F = (st, Some e)) \<and>
      fst (save_to_db real_text (fst (save_to_db real_text st F)) F) = st"
    if "\<not> list_all storable F"
    using save_to_db_not_storable [OF that, of real_text st] by auto
  from a b show ?thesis by blast
qed

lemma scenario_storable: "list_all storable scenario_facts"
  by (simp add: scenario_facts_def storable_def utf8_ok_def cps_def)

text \<open>
  Two runs on the two facts above, and two runs on a fact whose timestamp is the int
  1700000000, which the table holds as text.
\<close>

theorem save_to_db_twice_witness:
  "list_all storable scenario_facts \<and>
   length (rows (fst (save_to_db blank_real_text
      (fst (save_to_db blank_real_text empty_store scenario_facts)) scenario_facts))) = 4 \<and>
   stored_facts (fst (save_to_db blank_real_text
      (fst (save_to_db blank_real_text empty_store scenario_facts)) scenario_facts)) =
     scenario_facts @ scenario_facts \<and>
   map timestamp (stored_facts (fst (save_to_db blank_real_text
      (fst (save_to_db blank_real_text empty_store
         [\<lparr>type = cps ''general'', content = cps ''hello world'',
           source_reference = cps ''msg_0'', timestamp = PInt 1700000000,
           raw_text = cps ''hello world''\<rparr>]))
      [\<lparr>type = cps ''general'', content = cps ''hello world'',
        source_reference = cps ''msg_0'', timestamp = PInt 1700000000,
        raw_text = cps ''hello world''\<rparr>]))) =
     [PStr (cps ''1700000000''), PStr (cps ''1700000000'')] \<and>
   \<not> list_all storable
     [\<lparr>type = cps ''general'', content = cps ''hello world'',
       source_reference = cps ''msg_0'', timestamp = PDict [(cps ''year'', PInt 2024)],
       raw_text = cps ''hello world''\<rparr>] \<and>
   fst (save_to_db blank_real_text scenario_store
     [\<lparr>type = cps ''general'', content = cps ''hello world'',
       source_reference = cps ''msg_0'', timestamp = PDict [(cps ''year'', PInt 2024)],
       raw_text = cps ''hello world''\<rparr>]) = scenario_store"
proof -
  let ?f = "\<lparr>type = cps ''general'', content = cps ''hello world'',
      source_reference = cps ''msg_0'', timestamp = PInt 1700000000,
      raw_text = cps ''hello world''\<rparr>"
  let ?g = "\<lparr>type = cps ''general'', content = cps ''hello world'',
      source_reference = cps ''msg_0'', timestamp = PDict [(cps ''year'', PInt 2024)],
      raw_text = cps ''hello world''\<rparr>"
  have sf: "list_all storable [?f]"
    by (simp add: storable_def utf8_ok_def cps_def)
  have sg: "\<not> list_all storable [?g]"
    by (simp add: storable_def)
  have m: "map (stored_form blank_real_text) scenario_facts = scenario_facts"
    by (simp add: scenario_facts_def stored_form_def)
  have t: "map timestamp (map (stored_form blank_real_text) [?f]) = [PStr (cps ''1700000000'')]"
    by (simp add: stored_form_def str_int_def cps_def)
  from save_to_db_twice [of scenario_facts blank_real_text empty_store] scenario_storable m
  have 1: "length (rows (fst (save_to_db blank_real_text
      (fst (save_to_db blank_real_text empty_store scenario_facts)) scenario_facts))) = 4 \<and>
    stored_facts (fst (save_to_db blank_real_text
      (fst (save_to_db blank_real_text empty_store scenario_facts)) scenario_facts)) =
     scenario_facts @ scenario_facts"
    by (simp add: empty_store_def stored_facts_def scenario_facts_def)
  from save_to_db_twice [of "[?f]" blank_real_text empty_store] sf
  have "stored_facts (fst (save_to_db blank_real_text
      (fst (save_to_db blank_real_text empty_store [?f])) [?f])) =
     stored_facts empty_store @ map (stored_form blank_real_text) [?f] @
       map (stored_form blank_real_text) [?f]"
    by blast
  then have 2: "map timestamp (stored_facts (fst (save_to_db blank_real_text
      (fst (save_to_db blank_real_text empty_store [?f])) [?f]))) =
     [PStr (cps ''1700000000''), PStr (cps ''1700000000'')]"
    using t by (simp add: empty_store_def stored_facts_def)
  from save_to_db_twice [of "[?g]" blank_real_text scenario_store] sg
  have 3: "fst (save_to_db blank_real_text scenario_store [?g]) = scenario_store"
    by auto
  from 1 2 3 sg scenario_storable show ?thesis by blast
qed

text \<open>
  The message \<^verbatim>\<open>{"text": "hello world", "timestamp": [2024]}\<close> gives a fact whose
  timestamp is a list, which cannot be bound: each run of \<open>save_to_db\<close> raises and
  commits nothing, so after two runs the empty table is still empty, not at two rows.
\<close>

theorem save_to_db_unbound_counterexample:
  "extract_facts blank_repr
     [PDict [(cps ''text'', PStr (cps ''hello world'')),
             (cps ''timestamp'', PList [PInt 2024])]] =
     Inr [\<lparr>type = cps ''general'', content = cps ''hello world'',
           source_reference = cps ''msg_0'', timestamp = PList [PInt 2024],
           raw_text = cps ''hello world''\<rparr>] \<and>
   save_to_db blank_real_text empty_store
     [\<lparr>type = cps ''general'', content = cps ''hello world'',
       source_reference = cps ''msg_0'', timestamp = PList [PInt 2024],
       raw_text = cps ''hello world''\<rparr>] = (empty_store, Some ProgrammingError) \<and>
   length (rows (fst (save_to_db blank_real_text (fst (save_to_db blank_real_text empty_store
     [\<lparr>type = cps ''general'', content = cps ''hello world'',
       source_reference = cps ''msg_0'', timestamp = PList [PInt 2024],
       raw_text = cps ''hello world''\<rparr>]))
     [\<lparr>type = cps ''general'', content = cps ''hello world'',
       source_reference = cps ''msg_0'', timestamp = PList [PInt 2024],
       raw_text = cps ''hello world''\<rparr>]))) = 0"
  by (simp add: save_to_db_def insert_fact_def utf8_ok_def empty_store_def extract_eval
      classify_eval cps_def)

section \<open>The history window\<close>

lemma history_window_drop: "history_window h = drop (length h - 5) h"
  by (simp add: history_window_def py_slice_from_def nat_diff_distrib')

lemma history_window_length: "length (history_window h) = min 5 (length h)"
  by (simp add: history_window_drop)

lemma history_window_idem: "history_window (history_window h) = history_window h"
  by (simp add: history_window_drop)

lemma history_messages_Inr:
  "history_messages ts acc = Inr ms \<Longrightarrow>
     ms = acc @ concat (map turn_pair ts) \<and> list_all is_turn ts"
proof (induction ts arbitrary: acc)
  case Nil
  then show ?case by simp
next
  case (Cons t ts)
  from Cons.prems obtain q r where
    q: "py_getitem t (cps ''query'') = Inr q" and
    r: "py_getitem t (cps ''response'') = Inr r" and
    rest: "history_messages ts
      (acc @ [chat_message (cps ''user'') q, chat_message (cps ''assistant'') r]) = Inr ms"
    by (auto split: sum.splits)
  from q r have t: "is_turn t \<and>
      turn_pair t = [chat_message (cps ''user'') q, chat_message (cps ''assistant'') r]"
    by (cases t) (auto simp: dict_get_def split: option.splits)
  from Cons.IH [OF rest] t show ?case by simp
qed

lemma history_messages_total:
  "list_all is_turn ts \<Longrightarrow> history_messages ts acc = Inr (acc @ concat (map turn_pair ts))"
proof (induction ts arbitrary: acc)
  case Nil
  then show ?case by simp
next
  case (Cons t ts)
  from Cons.prems obtain kvs q r where
    "t = PDict kvs" "map_of kvs (cps ''query'') = Some q"
    "map_of kvs (cps ''response'') = Some r"
    by (cases t) auto
  with Cons show ?case by (simp add: dict_get_def)
qed

lemma turn_pair_roles:
  "list_all is_turn ts \<Longrightarrow>
     map role_of (concat (map turn_pair ts)) =
       concat (replicate (length ts) [PStr (cps ''user''), PStr (cps ''assistant'')])"
proof (induction ts)
  case Nil
  then show ?case by simp
next
  case (Cons t ts)
  from Cons.prems obtain kvs where "t = PDict kvs" by (cases t) auto
  with Cons show ?case by (simp add: chat_message_def dict_get_def cps_def)
qed

lemma turn_pair_length: "list_all is_turn ts \<Longrightarrow> length (concat (map turn_pair ts)) = 2 * length ts"
proof (induction ts)
  case Nil
  then show ?case by simp
next
  case (Cons t ts)
  from Cons.prems obtain kvs where "t = PDict kvs" by (cases t) auto
  with Cons show ?case by simp
qed

lemma anthropic_messages_Inr:
  assumes "anthropic_messages cfg q c h = Inr ms"
  shows "list_all is_turn (history_window h) \<and>
         ms = concat (map turn_pair (history_window h)) @
              [chat_message (cps ''user'') (PStr (current_message cfg c q))]"
  using assms history_messages_Inr [of "history_window h" "[]"]
  by (auto simp: anthropic_messages_def split: sum.splits)

lemma openai_messages_Inr:
  assumes "openai_messages cfg q c h = Inr ms"
  shows "list_all is_turn (history_window h) \<and>
         ms = chat_message (cps ''system'') (PStr (build_system_prompt cfg)) #
              concat (map turn_pair (history_window h)) @
              [chat_message (cps ''user'') (PStr (current_message cfg c q))]"
  using assms history_messages_Inr [of "history_window h"
      "[chat_message (cps ''system'') (PStr (build_system_prompt cfg))]"]
  by (auto simp: openai_messages_def split: sum.splits)

text \<open>
  Claim C7.  The turns that reach prompt assembly are \<open>history_window h\<close>, the last five
  turns of the history (all of it when it has fewer), whatever the length of \<open>h\<close>: both
  generation paths give the same result on \<open>h\<close> and on its window.  When a path returns
  its message list, the list is (after the system message, in the OpenAI path) one user
  message and one assistant message per turn of the window, in turn order, followed by
  the message with the current query; it has at most 10 history messages.  A window of
  turns that each have a query and a response always yields the list.
\<close>

theorem history_window_at_most_five:
  "length (history_window h) = min 5 (length h) \<and>
   history_window h = drop (length h - 5) h \<and>
   anthropic_messages cfg q c h = anthropic_messages cfg q c (history_window h) \<and>
   openai_messages cfg q c h = openai_messages cfg q c (history_window h) \<and>
   (anthropic_messages cfg q c h = Inr ms \<longrightarrow>
      ms = concat (map turn_pair (history_window h)) @
           [chat_message (cps ''user'') (PStr (current_message cfg c q))] \<and>
      length (concat (map turn_pair (history_window h))) = 2 * min 5 (length h) \<and>
      map role_of (concat (map turn_pair (history_window h))) =
        concat (replicate (min 5 (length h)) [PStr (cps ''user''), PStr (cps ''assistant'')])) \<and>
   (openai_messages cfg q c h = Inr ms' \<longrightarrow>
      ms' = chat_message (cps ''system'') (PStr (build_system_prompt cfg)) #
            concat (map turn_pair (history_window h)) @
            [chat_message (cps ''user'') (PStr (current_message cfg c q))] \<and>
      length (concat (map turn_pair (history_window h))) = 2 * min 5 (length h) \<and>
      map role_of (concat (map turn_pair (history_window h))) =
        concat (replicate (min 5 (length h)) [PStr (cps ''user''), PStr (cps ''assistant'')])) \<and>
   (list_all is_turn (history_window h) \<longrightarrow>
      (\<exists>ms. anthropic_messages cfg q c h = Inr ms) \<and>
      (\<exists>ms. openai_messages cfg q c h = Inr ms))"
proof -
  have w: "list_all is_turn (history_window h) \<Longrightarrow>
      length (concat (map turn_pair (history_window h))) = 2 * min 5 (length h) \<and>
      map role_of (concat (map turn_pair (history_window h))) =
        concat (replicate (min 5 (length h)) [PStr (cps ''user''), PStr (cps ''assistant'')])"
    using turn_pair_length [of "history_window h"] turn_pair_roles [of "history_window h"]
    by (simp add: history_window_length)
  have a: "anthropic_messages cfg q c h = anthropic_messages cfg q c (history_window h)"
    by (simp add: anthropic_messages_def history_window_idem)
  have b: "openai_messages cfg q c h = openai_messages cfg q c (history_window h)"
    by (simp add: openai_messages_def history_window_idem)
  have t: "list_all is_turn (history_window h) \<Longrightarrow>
      (\<exists>ms. anthropic_messages cfg q c h = Inr ms) \<and>
      (\<exists>ms. openai_messages cfg q c h = Inr ms)"
    by (simp add: anthropic_messages_def openai_messages_def history_messages_total)
  show ?thesis
    using history_window_length [of h] history_window_drop [of h] a b t w
      anthropic_messages_Inr [of cfg q c h ms] openai_messages_Inr [of cfg q c h ms']
    by blast
qed

lemma seven_turns_window:
  "history_window seven_turns = map numbered_turn [3, 4, 5, 6, 7]"
  by (simp add: seven_turns_def history_window_drop)

lemma numbered_turn_is_turn: "is_turn (numbered_turn n)"
  by (simp add: numbered_turn_def cps_def)

theorem history_window_at_most_five_witness:
  "length seven_turns = 7 \<and>
   history_window seven_turns = map numbered_turn [3, 4, 5, 6, 7] \<and>
   (\<exists>ms. anthropic_messages default_config (cps ''hi'') (cps ''none'') seven_turns = Inr ms \<and>
      length ms = 11 \<and>
      ms = concat (map turn_pair (map numbered_turn [3, 4, 5, 6, 7])) @
           [chat_message (cps ''user'')
              (PStr (current_message default_config (cps ''none'') (cps ''hi'')))]) \<and>
   (\<exists>ms. openai_messages default_config (cps ''hi'') (cps ''none'') seven_turns = Inr ms \<and>
      length ms = 12)"
proof -
  have n: "length seven_turns = 7" by (simp add: seven_turns_def)
  have t: "list_all is_turn (history_window seven_turns)"
    by (simp add: seven_turns_window numbered_turn_is_turn)
  from history_window_at_most_five [of seven_turns default_config "cps ''hi''" "cps ''none''"] t
  obtain ma mo where
    ma: "anthropic_messages default_config (cps ''hi'') (cps ''none'') seven_turns = Inr ma" and
    mo: "openai_messages default_config (cps ''hi'') (cps ''none'') seven_turns = Inr mo"
    by blast
  note inst = history_window_at_most_five
    [of seven_turns default_config "cps ''hi''" "cps ''none''" ma mo]
  from inst ma have a: "ma = concat (map turn_pair (history_window seven_turns)) @
           [chat_message (cps ''user'')
              (PStr (current_message default_config (cps ''none'') (cps ''hi'')))]"
    by blast
  from inst mo have b: "mo =
            chat_message (cps ''system'') (PStr (build_system_prompt default_config)) #
            concat (map turn_pair (history_window seven_turns)) @
            [chat_message (cps ''user'')
              (PStr (current_message default_config (cps ''none'') (cps ''hi'')))]"
    by blast
  from inst ma have c: "length (concat (map turn_pair (history_window seven_turns))) =
      2 * min 5 (length seven_turns)"
    by blast
  have la: "length ma = 11" using a c n by simp
  have lb: "length mo = 12" using b c n by simp
  show ?thesis
    using ma mo n a la lb seven_turns_window by simp
qed

section \<open>Conversation history\<close>

lemma load_lines_map_filter:
  "load_lines loads lns history = history @ List.map_filter loads lns"
  by (induction lns arbitrary: history)
     (simp_all add: List.map_filter_simps split: option.splits)

lemma clear_log: "conversation_log (clear_conversation_history s) = conversation_log s"
  by (simp add: clear_conversation_history_def)

lemma start_engine_history:
  "conversation_history (start_engine loads (Some lns)) =
     List.map_filter loads (py_slice_from lns (- 20))"
  by (simp add: start_engine_def load_conversation_history_def load_lines_map_filter)

lemma map_filter_append:
  "List.map_filter f (xs @ ys) = List.map_filter f xs @ List.map_filter f ys"
  by (simp add: List.map_filter_def)

lemma start_engine_after_save:
  assumes "loads (dumps t @ [10]) = Some t"
  shows "t \<in> set (conversation_history
           (start_engine loads (conversation_log (save_conversation_turn dumps s t))))"
proof -
  obtain old where lg: "conversation_log (save_conversation_turn dumps s t) =
      Some (old @ [dumps t @ [10]])"
    by (simp add: save_conversation_turn_def)
  have "py_slice_from (old @ [dumps t @ [10]]) (- 20) =
      drop (length old - 19) old @ [dumps t @ [10]]"
    by (simp add: py_slice_from_def nat_diff_distrib')
  then have "conversation_history (start_engine loads (Some (old @ [dumps t @ [10]]))) =
      List.map_filter loads (drop (length old - 19) old) @ [t]"
    using assms by (simp add: start_engine_history map_filter_append List.map_filter_simps)
  then show ?thesis using lg by simp
qed

text \<open>
  Claim C8.  \<open>clear_conversation_history\<close> sets the in-memory history to the empty
  list and leaves the log file as it was.  A start of the process after the clear
  therefore reads what it would have read without it: for a log with lines \<open>lns\<close>, the
  turns that parse among its last 20 lines; and a turn \<open>t\<close> that was saved before the
  clear is among the loaded turns whenever \<open>json.loads\<close> reads the written line back
  as \<open>t\<close>.
\<close>

theorem clear_history_keeps_log:
  "conversation_history (clear_conversation_history s) = [] \<and>
   conversation_log (clear_conversation_history s) = conversation_log s \<and>
   start_engine loads (conversation_log (clear_conversation_history s)) =
     start_engine loads (conversation_log s) \<and>
   (conversation_log s = Some lns \<longrightarrow>
      conversation_history (start_engine loads (conversation_log (clear_conversation_history s))) =
        List.map_filter loads (py_slice_from lns (- 20))) \<and>
   (loads (dumps t @ [10]) = Some t \<longrightarrow>
      t \<in> set (conversation_history (start_engine loads
        (conversation_log (clear_conversation_history (save_conversation_turn dumps s t))))))"
  using start_engine_after_save [of loads dumps t s]
  by (simp add: clear_log start_engine_history) (simp add: clear_conversation_history_def)

theorem clear_history_keeps_log_witness:
  "conversation_log \<lparr>conversation_history = [numbered_turn 1],
      conversation_log = Some [cps ''line 1'' @ [10]]\<rparr> = Some [cps ''line 1'' @ [10]] \<and>
   conversation_history (start_engine
      (map_of [(cps ''line 1'' @ [10], numbered_turn 1), (cps ''line 2'' @ [10], numbered_turn 2)])
      (conversation_log (clear_conversation_history
         \<lparr>conversation_history = [numbered_turn 1],
          conversation_log = Some [cps ''line 1'' @ [10]]\<rparr>))) = [numbered_turn 1] \<and>
   numbered_turn 2 \<in> set (conversation_history (start_engine
      (map_of [(cps ''line 1'' @ [10], numbered_turn 1), (cps ''line 2'' @ [10], numbered_turn 2)])
      (conversation_log (clear_conversation_history
         (save_conversation_turn (table [] [(numbered_turn 2, cps ''line 2'')])
            \<lparr>conversation_history = [numbered_turn 1],
             conversation_log = Some [cps ''line 1'' @ [10]]\<rparr> (numbered_turn 2))))))"
proof -
  let ?loads = "map_of [(cps ''line 1'' @ [10], numbered_turn 1),
      (cps ''line 2'' @ [10], numbered_turn 2)]"
  let ?dumps = "table [] [(numbered_turn 2, cps ''line 2'')]"
  let ?s = "\<lparr>conversation_history = [numbered_turn 1],
      conversation_log = Some [cps ''line 1'' @ [10]]\<rparr>"
  have a: "conversation_log ?s = Some [cps ''line 1'' @ [10]]" by simp
  have b: "?loads (?dumps (numbered_turn 2) @ [10]) = Some (numbered_turn 2)"
    by (simp add: table_def cps_def)
  have c: "List.map_filter ?loads (py_slice_from [cps ''line 1'' @ [10]] (- 20)) =
      [numbered_turn 1]"
    by (simp add: py_slice_from_def List.map_filter_simps)
  note inst = clear_history_keeps_log [of ?s ?loads "[cps ''line 1'' @ [10]]" ?dumps
      "numbered_turn 2"]
  from inst a c have "conversation_history (start_engine ?loads
      (conversation_log (clear_conversation_history ?s))) = [numbered_turn 1]"
    by metis
  moreover from inst b have "numbered_turn 2 \<in> set (conversation_history (start_engine ?loads
      (conversation_log (clear_conversation_history
         (save_conversation_turn ?dumps ?s (numbered_turn 2))))))"
    by blast
  ultimately show ?thesis using a by blast
qed

lemma load_conversation_history_no_file:
  "conversation_log s = None \<Longrightarrow> load_conversation_history loads s limit = s"
  by (simp add: load_conversation_history_def)

lemma load_conversation_history_last:
  assumes "conversation_log s = Some lns" and "0 < limit"
  shows "load_conversation_history loads s limit =
     s\<lparr>conversation_history := conversation_history s @
          List.map_filter loads (drop (length lns - nat limit) lns)\<rparr>"
proof -
  from assms(2) have "py_slice_from lns (- limit) = drop (length lns - nat limit) lns"
    by (simp add: py_slice_from_def nat_diff_distrib')
  then show ?thesis
    using assms(1) by (simp add: load_conversation_history_def load_lines_map_filter)
qed

text \<open>
  Claim C10 at \<^verbatim>\<open>limit=0\<close>.  The slice \<^verbatim>\<open>lines[-0:]\<close> is the whole list, so a call
  with limit 0 loads every line of a two-line log, not the last zero lines.  (For a
  positive limit, and a log that is read as text and whose lines raise nothing but a
  \<^verbatim>\<open>JSONDecodeError\<close> when parsed, the lemmas above give the last \<open>limit\<close> lines, the
  lines that do not parse left out, and no change when the file does not exist.  The
  code catches no other exception.)
\<close>

theorem load_history_limit_zero:
  "conversation_history (load_conversation_history
      (map_of [(cps ''line 1'' @ [10], numbered_turn 1), (cps ''line 2'' @ [10], numbered_turn 2)])
      \<lparr>conversation_history = [],
       conversation_log = Some [cps ''line 1'' @ [10], cps ''line 2'' @ [10]]\<rparr> 0) =
     [numbered_turn 1, numbered_turn 2]"
  by (simp add: load_conversation_history_def py_slice_from_def cps_def)

section \<open>Building the vector index\<close>

lemma concat_chunks: "0 < n \<Longrightarrow> concat (chunks n xs) = xs"
proof (induction n xs rule: chunks.induct)
  case (1 n xs)
  show ?case
  proof (cases "xs = []")
    case True
    then show ?thesis by (subst chunks.simps) simp
  next
    case False
    with 1 have "concat (chunks n (drop n xs)) = drop n xs" by simp
    with False 1(2) show ?thesis by (subst chunks.simps) simp
  qed
qed

lemma add_batch_success:
  assumes "embeds_all ms"
  shows "\<exists>new. add_batch ms batch = (ms\<lparr>collection := collection ms @ new\<rparr>, None) \<and>
           map document new = map content batch \<and>
           map entry_id new = map (digits \<circ> row_id) batch \<and>
           map metadata new = map fact_metadata batch"
proof -
  from assms obtain es where es: "embed_function ms (map content batch) = Inr es"
    "length es = length batch"
    unfolding embeds_all_def by (metis length_map)
  have "map document (map2 fact_entry batch es) = map content batch \<and>
        map entry_id (map2 fact_entry batch es) = map (digits \<circ> row_id) batch \<and>
        map metadata (map2 fact_entry batch es) = map fact_metadata batch"
    using es(2)
  proof (induction batch arbitrary: es)
    case Nil
    then show ?case by simp
  next
    case (Cons f fs)
    then obtain e es' where "es = e # es'" by (cases es) auto
    with Cons show ?case by (simp add: fact_entry_def)
  qed
  then show ?thesis using es by (auto simp: add_batch_def)
qed

lemma add_batches_success:
  assumes "embeds_all ms"
  shows "\<exists>new. add_batches ms bs = (ms\<lparr>collection := collection ms @ new\<rparr>, None) \<and>
           map document new = map content (concat bs) \<and>
           map entry_id new = map (digits \<circ> row_id) (concat bs) \<and>
           map metadata new = map fact_metadata (concat bs)"
  using assms
proof (induction bs arbitrary: ms)
  case Nil
  then show ?case by simp
next
  case (Cons b bs)
  from add_batch_success [OF Cons.prems, of b] obtain n1 where n1:
    "add_batch ms b = (ms\<lparr>collection := collection ms @ n1\<rparr>, None)"
    "map document n1 = map content b"
    "map entry_id n1 = map (digits \<circ> row_id) b"
    "map metadata n1 = map fact_metadata b"
    by blast
  let ?ms1 = "ms\<lparr>collection := collection ms @ n1\<rparr>"
  from Cons.prems have "embeds_all ?ms1" by (simp add: embeds_all_def)
  from Cons.IH [OF this] obtain n2 where n2:
    "add_batches ?ms1 bs = (?ms1\<lparr>collection := collection ?ms1 @ n2\<rparr>, None)"
    "map document n2 = map content (concat bs)"
    "map entry_id n2 = map (digits \<circ> row_id) (concat bs)"
    "map metadata n2 = map fact_metadata (concat bs)"
    by blast
  have "add_batches ms (b # bs) = (ms\<lparr>collection := collection ms @ (n1 @ n2)\<rparr>, None)"
    using n1(1) n2(1) by simp
  moreover have "map document (n1 @ n2) = map content (concat (b # bs))"
    using n1(2) n2(2) by simp
  moreover have "map entry_id (n1 @ n2) = map (digits \<circ> row_id) (concat (b # bs))"
    using n1(3) n2(3) by simp
  moreover have "map metadata (n1 @ n2) = map fact_metadata (concat (b # bs))"
    using n1(4) n2(4) by simp
  ultimately show ?case by blast
qed

lemma build_refused:
  assumes "rows st \<noteq> []" and "collection ms \<noteq> []" and "py_lower response \<noteq> cps ''yes''"
  shows "build_vector_index ms st response batch_size = (ms, None)"
  using assms by (simp add: build_vector_index_def load_facts_from_db_def Let_def)

lemma build_no_facts:
  "rows st = [] \<Longrightarrow> build_vector_index ms st response batch_size = (ms, None)"
  by (simp add: build_vector_index_def load_facts_from_db_def Let_def)

lemma build_confirmed:
  assumes "rows st \<noteq> []" and "collection ms \<noteq> []" and "py_lower response = cps ''yes''"
  shows "build_vector_index ms st response batch_size =
         build_vector_index (ms\<lparr>collection := []\<rparr>) st response batch_size"
  using assms by (simp add: build_vector_index_def load_facts_from_db_def Let_def)

lemma build_empty_index:
  assumes "embeds_all ms" and "collection ms = []" and "0 < batch_size"
  shows "\<exists>new. build_vector_index ms st response batch_size = (ms\<lparr>collection := new\<rparr>, None) \<and>
           map document new = map content (rows st) \<and>
           map entry_id new = map (digits \<circ> row_id) (rows st) \<and>
           map metadata new = map fact_metadata (rows st)"
proof (cases "rows st = []")
  case True
  then show ?thesis
    using assms(2) by (simp add: build_no_facts)
next
  case False
  have c: "concat (chunks (nat batch_size) (rows st)) = rows st"
    using assms(3) by (simp add: concat_chunks)
  from add_batches_success [OF assms(1), of "chunks (nat batch_size) (rows st)"]
  obtain new where new:
    "add_batches ms (chunks (nat batch_size) (rows st)) =
       (ms\<lparr>collection := collection ms @ new\<rparr>, None)"
    "map document new = map content (concat (chunks (nat batch_size) (rows st)))"
    "map entry_id new = map (digits \<circ> row_id) (concat (chunks (nat batch_size) (rows st)))"
    "map metadata new = map fact_metadata (concat (chunks (nat batch_size) (rows st)))"
    by blast
  have "build_vector_index ms st response batch_size = (ms\<lparr>collection := new\<rparr>, None)"
    using False assms(2,3) new(1)
    by (simp add: build_vector_index_def index_batches_def load_facts_from_db_def Let_def
        batches_def)
  then show ?thesis
    using new(2,3,4) unfolding c by blast
qed

text \<open>
  Claim C9.  With facts in the database and entries in the index, a reply other than
  \<^verbatim>\<open>yes\<close> (in any letter case) makes \<open>build_vector_index\<close> return without an error
  and with the store as it was; so a call that changes a non-empty index was confirmed
  by \<^verbatim>\<open>yes\<close>.  After \<^verbatim>\<open>yes\<close> the call does exactly what it does on the emptied
  index: the old entries are deleted before the first batch is added and none of them
  is kept.  When in addition every batch is embedded and the batch size is positive,
  the call raises nothing and the index holds one entry per fact, in row order, with
  the fact's id, content and metadata.
\<close>

theorem rebuild_needs_confirmation:
  "(rows st \<noteq> [] \<and> collection ms \<noteq> [] \<and> py_lower response \<noteq> cps ''yes'' \<longrightarrow>
      build_vector_index ms st response batch_size = (ms, None)) \<and>
   (collection ms \<noteq> [] \<and> fst (build_vector_index ms st response batch_size) \<noteq> ms \<longrightarrow>
      py_lower response = cps ''yes'') \<and>
   (rows st \<noteq> [] \<and> collection ms \<noteq> [] \<and> py_lower response = cps ''yes'' \<longrightarrow>
      build_vector_index ms st response batch_size =
        build_vector_index (ms\<lparr>collection := []\<rparr>) st response batch_size) \<and>
   (rows st \<noteq> [] \<and> collection ms \<noteq> [] \<and> py_lower response = cps ''yes'' \<and>
    embeds_all ms \<and> 0 < batch_size \<longrightarrow>
      snd (build_vector_index ms st response batch_size) = None \<and>
      map document (collection (fst (build_vector_index ms st response batch_size))) =
        map content (rows st) \<and>
      map entry_id (collection (fst (build_vector_index ms st response batch_size))) =
        map (digits \<circ> row_id) (rows st) \<and>
      map metadata (collection (fst (build_vector_index ms st response batch_size))) =
        map fact_metadata (rows st))"
proof -
  have a: "fst (build_vector_index ms st response batch_size) = ms"
    if "py_lower response \<noteq> cps ''yes''" "collection ms \<noteq> []"
    using that build_refused [of st ms response batch_size]
      build_no_facts [of st ms response batch_size]
    by (cases "rows st = []") simp_all
  have b: "snd (build_vector_index ms st response batch_size) = None \<and>
      map document (collection (fst (build_vector_index ms st response batch_size))) =
        map content (rows st) \<and>
      map entry_id (collection (fst (build_vector_index ms st response batch_size))) =
        map (digits \<circ> row_id) (rows st) \<and>
      map metadata (collection (fst (build_vector_index ms st response batch_size))) =
        map fact_metadata (rows st)"
    if h: "rows st \<noteq> []" "collection ms \<noteq> []" "py_lower response = cps ''yes''"
      "embeds_all ms" "0 < batch_size"
  proof -
    have "embeds_all (ms\<lparr>collection := []\<rparr>)"
      using h(4) by (simp add: embeds_all_def)
    from build_empty_index [OF this _ h(5), of st response]
    obtain new where
      "build_vector_index (ms\<lparr>collection := []\<rparr>) st response batch_size =
         (ms\<lparr>collection := new\<rparr>, None)"
      "map document new = map content (rows st)"
      "map entry_id new = map (digits \<circ> row_id) (rows st)"
      "map metadata new = map fact_metadata (rows st)"
      by auto
    then show ?thesis
      using build_confirmed [OF h(1,2,3), of batch_size] by simp
  qed
  show ?thesis
    using build_refused [of st ms response batch_size]
      build_confirmed [of st ms response batch_size] a b
    by blast
qed

lemma length_store_embeds_all: "embeds_all length_store"
  by (simp add: embeds_all_def length_store_def)

lemma scenario_store_rows: "length (rows scenario_store) = 2"
  using save_to_db_storable [OF scenario_storable, of blank_real_text empty_store]
  by (simp add: scenario_store_def empty_store_def scenario_facts_def)

theorem rebuild_needs_confirmation_witness:
  "length (rows scenario_store) = 2 \<and> length (collection length_store) = 1 \<and>
   build_vector_index length_store scenario_store (cps ''no'') 100 = (length_store, None) \<and>
   snd (build_vector_index length_store scenario_store (cps ''Yes'') 100) = None \<and>
   map document (collection (fst (build_vector_index length_store scenario_store
      (cps ''Yes'') 100))) = map content (rows scenario_store) \<and>
   build_vector_index length_store scenario_store (cps ''Yes'') 100 =
     build_vector_index (length_store\<lparr>collection := []\<rparr>) scenario_store (cps ''Yes'') 100"
proof -
  have r: "rows scenario_store \<noteq> []"
    using scenario_store_rows by auto
  have c: "collection length_store \<noteq> [] \<and> length (collection length_store) = 1"
    by (simp add: length_store_def)
  have n: "py_lower (cps ''no'') \<noteq> cps ''yes''"
    by (simp add: py_lower_def lower_cp_def cps_def)
  have y: "py_lower (cps ''Yes'') = cps ''yes''"
    by (simp add: py_lower_def lower_cp_def cps_def)
  have p: "(0::int) < 100" by simp
  from rebuild_needs_confirmation [of scenario_store length_store "cps ''no''" 100] r c n
  have 1: "build_vector_index length_store scenario_store (cps ''no'') 100 =
      (length_store, None)"
    by blast
  note inst = rebuild_needs_confirmation [of scenario_store length_store "cps ''Yes''" 100]
  from inst r c y length_store_embeds_all p
  have 2: "snd (build_vector_index length_store scenario_store (cps ''Yes'') 100) = None \<and>
      map document (collection (fst (build_vector_index length_store scenario_store
        (cps ''Yes'') 100))) = map content (rows scenario_store)"
    by blast
  from inst r c y
  have 3: "build_vector_index length_store scenario_store (cps ''Yes'') 100 =
     build_vector_index (length_store\<lparr>collection := []\<rparr>) scenario_store (cps ''Yes'') 100"
    by blast
  show ?thesis
    using 1 2 3 c scenario_store_rows by blast
qed

section \<open>Searching the vector index\<close>






















lemma indexed_store_built:
  "build_vector_index length_store scenario_store (cps ''yes'') 100 = (indexed_store, None)"
  by (simp add: build_vector_index_def load_facts_from_db_def scenario_store_def
      save_to_db_def insert_fact_def stored_form_def utf8_ok_def empty_store_def
      scenario_facts_def
      length_store_def indexed_store_def index_batches_def batches_def chunks.simps add_batch_def
      fact_entry_def fact_metadata_def fact.extend_def py_lower_def lower_cp_def cps_def Let_def)




section \<open>Answering a query\<close>

lemma rag_query_search_raises:
  "search query_collection cfg ms q top_k = Inl e \<Longrightarrow>
     rag_query query_collection create repr dumps now cfg ms s q top_k = (Inl e, s)"
  by (simp add: rag_query_def)

lemma rag_query_no_facts:
  assumes "search query_collection cfg ms q top_k = Inr []"
  shows "rag_query query_collection create repr dumps now cfg ms s q top_k =
     (case generate_response create cfg q no_memories (conversation_history s) of
        Inl e \<Rightarrow> (Inl e, s)
      | Inr text \<Rightarrow>
          (Inr \<lparr>ans_response = text, ans_retrieved_facts = [], ans_context = no_memories,
                facts_retrieved = 0,
                ans_model = provider_name (llm_provider cfg) @ cps ''/'' @ llm_model cfg,
                ans_timestamp = now\<rparr>,
           save_conversation_turn dumps
             (s\<lparr>conversation_history :=
                  conversation_history s @ [conversation_turn now q text 0 no_memories]\<rparr>)
             (conversation_turn now q text 0 no_memories)))"
  using assms by (simp add: rag_query_def build_context_def Let_def split: sum.splits)

text \<open>
  Claim C3, as the code has it.  When \<open>search\<close> returns the empty list (the index is
  empty, or nothing came back), \<open>rag_query\<close> calls the generation path with the
  placeholder \<^verbatim>\<open>No relevant memories found.\<close> as context; if that path returns a text,
  the answer carries the text, the placeholder context and \<open>facts_retrieved = 0\<close>, and
  the turn is appended to the history and the log with a facts count of 0.  When
  \<open>search\<close> raises (the index cannot be reached, or the embedding call fails), the
  exception leaves \<open>rag_query\<close>: nothing is generated and the state is unchanged.
\<close>

theorem query_without_facts:
  "(search query_collection cfg ms q top_k = Inr [] \<longrightarrow>
      build_context repr ([] :: 'd hit list) = no_memories \<and>
      rag_query query_collection create repr dumps now cfg ms s q top_k =
        (case generate_response create cfg q no_memories (conversation_history s) of
           Inl e \<Rightarrow> (Inl e, s)
         | Inr text \<Rightarrow>
             (Inr \<lparr>ans_response = text, ans_retrieved_facts = ([] :: 'd hit list),
                   ans_context = no_memories, facts_retrieved = 0,
                   ans_model = provider_name (llm_provider cfg) @ cps ''/'' @ llm_model cfg,
                   ans_timestamp = now\<rparr>,
              save_conversation_turn dumps
                (s\<lparr>conversation_history :=
                     conversation_history s @ [conversation_turn now q text 0 no_memories]\<rparr>)
                (conversation_turn now q text 0 no_memories)))) \<and>
   (search query_collection cfg ms q top_k = (Inl e :: error + 'd hit list) \<longrightarrow>
      rag_query query_collection create repr dumps now cfg ms s q top_k = (Inl e, s))"
  using rag_query_no_facts [of query_collection cfg ms q top_k create repr dumps now s]
    rag_query_search_raises [of query_collection cfg ms q top_k e create repr dumps now s]
  by (simp add: build_context_def)

lemma search_empty_index:
  "search (exhaustive_query gap) default_config (indexed_store\<lparr>collection := []\<rparr>)
     (cps ''what do i trade'') None = Inr []"
  by (simp add: search_def and_then_def py_nth_def indexed_store_def default_config_def
      exhaustive_query_def format_results_def Let_def)

lemma search_unreachable:
  "search unreachable_index default_config indexed_store (cps ''what do i trade'') None =
     Inl (BackendError ''Could not connect to the vector index'')"
  by (simp add: search_def and_then_def py_nth_def indexed_store_def unreachable_index_def
      Let_def)

lemma generate_fresh:
  "generate_response (table (Inr (cps ''hello'')) []) default_config q c
     (conversation_history fresh_state) = Inr (cps ''hello'')"
  by (simp add: generate_response_def generate_with_anthropic_def anthropic_messages_def
      history_window_def py_slice_from_def table_def default_config_def fresh_state_def)

theorem query_without_facts_witness:
  "fst (rag_query (exhaustive_query gap) (table (Inr (cps ''hello'')) []) blank_repr
      (table [] []) (cps ''2024-01-01T00:00:00'') default_config
      (indexed_store\<lparr>collection := []\<rparr>) fresh_state (cps ''what do i trade'') None) =
     Inr \<lparr>ans_response = cps ''hello'', ans_retrieved_facts = [],
          ans_context = cps ''No relevant memories found.'', facts_retrieved = 0,
          ans_model = cps ''anthropic/claude-3-5-sonnet-20241022'',
          ans_timestamp = cps ''2024-01-01T00:00:00''\<rparr> \<and>
   rag_query unreachable_index (table (Inr (cps ''hello'')) []) blank_repr
      (table [] []) (cps ''2024-01-01T00:00:00'') default_config indexed_store fresh_state
      (cps ''what do i trade'') None =
     (Inl (BackendError ''Could not connect to the vector index''), fresh_state)"
proof -
  let ?create = "table (Inr (cps ''hello'')) [] :: llm_request \<Rightarrow> error + pystr"
  let ?dumps = "table [] [] :: pyval \<Rightarrow> pystr"
  let ?now = "cps ''2024-01-01T00:00:00''"
  let ?q = "cps ''what do i trade''"
  note a = query_without_facts [where query_collection = "exhaustive_query gap" and
      cfg = default_config and ms = "indexed_store\<lparr>collection := []\<rparr>" and q = ?q and
      top_k = None and create = ?create and repr = blank_repr and dumps = ?dumps and
      now = ?now and s = fresh_state]
  from a search_empty_index generate_fresh [of ?q no_memories]
  have "fst (rag_query (exhaustive_query gap) ?create blank_repr ?dumps ?now default_config
      (indexed_store\<lparr>collection := []\<rparr>) fresh_state ?q None) =
     Inr \<lparr>ans_response = cps ''hello'', ans_retrieved_facts = [],
          ans_context = no_memories, facts_retrieved = 0,
          ans_model = provider_name (llm_provider default_config) @ cps ''/'' @
            llm_model default_config,
          ans_timestamp = ?now\<rparr>"
    by simp
  then have 1: "fst (rag_query (exhaustive_query gap) ?create blank_repr ?dumps ?now
      default_config (indexed_store\<lparr>collection := []\<rparr>) fresh_state ?q None) =
     Inr \<lparr>ans_response = cps ''hello'', ans_retrieved_facts = [],
          ans_context = cps ''No relevant memories found.'', facts_retrieved = 0,
          ans_model = cps ''anthropic/claude-3-5-sonnet-20241022'',
          ans_timestamp = ?now\<rparr>"
    by (simp add: no_memories_def default_config_def cps_def)
  note b = query_without_facts [where query_collection = unreachable_index and
      cfg = default_config and ms = indexed_store and q = ?q and top_k = None and
      e = "BackendError ''Could not connect to the vector index''" and create = ?create and
      repr = blank_repr and dumps = ?dumps and now = ?now and s = fresh_state]
  from b search_unreachable
  have 2: "rag_query unreachable_index ?create blank_repr ?dumps ?now default_config
      indexed_store fresh_state ?q None =
     (Inl (BackendError ''Could not connect to the vector index''), fresh_state)"
    by blast
  from 1 2 show ?thesis by blast
qed

text \<open>
  With the vector index out of reach the query raises: no answer is generated and no
  \<open>facts_retrieved\<close> is reported.
\<close>

theorem query_unreachable_counterexample:
  "rag_query unreachable_index (table (Inr (cps ''hello'')) []) blank_repr (table [] [])
      (cps ''2024-01-01T00:00:00'') default_config indexed_store fresh_state
      (cps ''what do i trade'') None =
     (Inl (BackendError ''Could not connect to the vector index''), fresh_state)"
  by (simp add: rag_query_def search_unreachable)

end
